theory Spec2Isabelle
  imports Main "HOL-Library.Word"
begin

section \<open>JavaScript values\<close>

text \<open>
  A JavaScript string is a \<open>string\<close>: one \<open>char\<close> stands for one UTF-16 code unit
  below 256, so \<open>length\<close> is the source's \<open>.length\<close>. A value of type
  \<open>string | null\<close> (or an optional property) is a \<open>string option\<close>.
\<close>

text \<open>Truthiness of a \<open>string | null | undefined\<close>: \<open>null\<close>, \<open>undefined\<close> and the empty
  string are falsy.\<close>

definition truthy :: "string option \<Rightarrow> bool" where
  "truthy v = (case v of None \<Rightarrow> False | Some s \<Rightarrow> s \<noteq> [])"

text \<open>What a rejected promise carries: a string, an \<open>Error\<close> instance (with its
  \<open>message\<close>), or any other value.\<close>

datatype js_thrown = ThrownString string | ThrownError string | ThrownOther

section \<open>utils/api.ts: error normalisation\<close>

text \<open>\<open>class ApiError extends Error\<close>: the constructor sets \<open>message\<close>, the optional
  \<open>code\<close> and \<open>name = 'ApiError'\<close>.\<close>

record ApiError =
  name :: string
  message :: string
  code :: "string option"

definition new_ApiError :: "string \<Rightarrow> ApiError" where
  "new_ApiError m = \<lparr>name = ''ApiError'', message = m, code = None\<rparr>"

text \<open>\<open>handleApiCall\<close>: the awaited call either yields its value (\<open>Inr\<close>) or throws
  (\<open>Inl\<close>); the wrapper's own result is the value or the \<open>ApiError\<close> it rejects with.\<close>

definition handleApiCall :: "(unit \<Rightarrow> js_thrown + 'a) \<Rightarrow> ApiError + 'a" where
  "handleApiCall apiCall =
     (case apiCall () of
        Inr v \<Rightarrow> Inr v
      | Inl error \<Rightarrow>
          (case error of
             ThrownString s \<Rightarrow> Inl (new_ApiError s)
           | ThrownError m \<Rightarrow> Inl (new_ApiError m)
           | ThrownOther \<Rightarrow> Inl (new_ApiError ''An unknown error occurred'')))"

section \<open>utils/api.ts: validation\<close>

subsection \<open>The regular expressions the validation uses\<close>

text \<open>
  The fragment of JavaScript regular expressions that \<open>validatePassword\<close> needs: a
  character class, a starred character class, concatenation and positive lookahead.
  \<open>residuals r s\<close> lists what is left of \<open>s\<close> after each way \<open>r\<close> can match a prefix of
  it (the greedy choice first); \<open>regex_test\<close> is \<open>RegExp.prototype.test\<close> of an unanchored
  expression without flags: a match may start at any index, the end included.
\<close>

datatype regex =
    Class "char \<Rightarrow> bool"
  | StarClass "char \<Rightarrow> bool"
  | Seq regex regex
  | Lookahead regex

fun residuals :: "regex \<Rightarrow> string \<Rightarrow> string list" where
  "residuals (Class C) [] = []"
| "residuals (Class C) (c # cs) = (if C c then [cs] else [])"
| "residuals (StarClass C) [] = [[]]"
| "residuals (StarClass C) (c # cs) =
     (if C c then residuals (StarClass C) cs @ [c # cs] else [c # cs])"
| "residuals (Seq a b) s = concat (map (residuals b) (residuals a s))"
| "residuals (Lookahead a) s = (if residuals a s = [] then [] else [s])"

fun regex_test :: "regex \<Rightarrow> string \<Rightarrow> bool" where
  "regex_test r [] = (residuals r [] \<noteq> [])"
| "regex_test r (c # cs) = (residuals r (c # cs) \<noteq> [] \<or> regex_test r cs)"

text \<open>Line terminators (\<open>\n\<close> and \<open>\r\<close>; U+2028 and U+2029 lie outside the code units
  modelled): \<open>.\<close> matches every code unit but these.\<close>

definition line_terminator :: "char \<Rightarrow> bool" where
  "line_terminator c = (c = CHR 0x0A \<or> c = CHR 0x0D)"

definition dot :: "char \<Rightarrow> bool" where
  "dot c = (\<not> line_terminator c)"

text \<open>\<open>[a-z]\<close>, \<open>[A-Z]\<close> and \<open>\d\<close> (which is \<open>[0-9]\<close>), as ranges of code units.\<close>

definition lower :: "char \<Rightarrow> bool" where
  "lower c = ((of_char CHR ''a'' :: nat) \<le> of_char c \<and> (of_char c :: nat) \<le> of_char CHR ''z'')"

definition upper :: "char \<Rightarrow> bool" where
  "upper c = ((of_char CHR ''A'' :: nat) \<le> of_char c \<and> (of_char c :: nat) \<le> of_char CHR ''Z'')"

definition digit :: "char \<Rightarrow> bool" where
  "digit c = ((of_char CHR ''0'' :: nat) \<le> of_char c \<and> (of_char c :: nat) \<le> of_char CHR ''9'')"

text \<open>\<open>/(?=.*[a-z])(?=.*[A-Z])(?=.*\d)/\<close>\<close>

definition password_regex :: regex where
  "password_regex =
     Seq (Lookahead (Seq (StarClass dot) (Class lower)))
       (Seq (Lookahead (Seq (StarClass dot) (Class upper)))
            (Lookahead (Seq (StarClass dot) (Class digit))))"

subsection \<open>validatePassword\<close>

record ValidationResult =
  isValid :: bool
  message :: "string option"

definition validatePassword :: "string \<Rightarrow> ValidationResult" where
  "validatePassword password =
     (if length password < 8 then
        \<lparr>isValid = False,
         message = Some ''Password must be at least 8 characters long''\<rparr>
      else if \<not> regex_test password_regex password then
        \<lparr>isValid = False,
         message = Some ''Password must contain at least one lowercase letter, one uppercase letter, and one number''\<rparr>
      else \<lparr>isValid = True, message = None\<rparr>)"

section \<open>types/index.ts: what crosses the IPC boundary\<close>

text \<open>The request and response interfaces, field for field. A \<open>number\<close> that is a row
  id is an \<open>int\<close>; an optional property is an \<open>option\<close>.\<close>

record SetupRequest =
  master_password :: string
  question1 :: string
  answer1 :: string
  question2 :: string
  answer2 :: string
  question3 :: string
  answer3 :: string

record LoginRequest =
  master_password :: string

record RecoveryRequest =
  answer1 :: string
  answer2 :: string
  answer3 :: string

record ResetPasswordRequest =
  new_master_password :: string
  answer1 :: string
  answer2 :: string
  answer3 :: string

record AuthResponse =
  success :: bool
  message :: string
  master_key :: "string option"

text \<open>\<open>AddPasswordRequest\<close> and \<open>UpdatePasswordRequest\<close> also have the \<open>notes\<close> property
  that the dashboard's modals put into the object they send. Their \<open>master_key\<close> is
  declared a \<open>string\<close>; what the modals send is the dashboard's \<open>state.masterKey!\<close>, and
  the non-null assertion is erased at run time, so the property is \<open>null\<close> when the
  session holds no key: an \<open>option\<close>.\<close>

record AddPasswordRequest =
  software :: string
  account :: string
  password :: string
  "notes" :: string
  master_key :: "string option"

record UpdatePasswordRequest =
  id :: int
  software :: string
  account :: string
  password :: string
  "notes" :: string
  master_key :: "string option"

record DeletePasswordRequest =
  id :: int

record GetPasswordsRequest =
  master_key :: string
  search_query :: "string option"

record DecryptPasswordRequest =
  id :: int
  master_key :: string

record PasswordEntry =
  id :: int
  software :: string
  account :: string
  password :: "string option"
  created_at :: "string option"

text \<open>\<open>PasswordResponse.data\<close> is \<open>any\<close>; the parameter \<open>'d\<close> is what the command at hand
  returns in it (objects and arrays, which are truthy whenever present).\<close>

record 'd PasswordResponse =
  success :: bool
  message :: string
  data :: "'d option"

record ExportRequest =
  export_passphrase :: string
  file_path :: string

record ImportRequest =
  import_passphrase :: string
  file_path :: string

record ExportResponse =
  success :: bool
  message :: string
  file_path :: "string option"

record ImportResponse =
  success :: bool
  message :: string
  imported_entries_count :: "int option"

record AppState =
  isAuthenticated :: bool
  masterKey :: "string option"
  isSetup :: bool
  loading :: bool
  error :: "string option"

text \<open>The calls of \<open>invoke\<close> in utils/api.ts, each with the arguments it passes to the
  backend: one constructor per command name.\<close>

datatype invoke =
    invoke_is_app_setup
  | invoke_setup_app SetupRequest
  | invoke_login LoginRequest
  | invoke_get_security_questions
  | invoke_verify_recovery_answers RecoveryRequest
  | invoke_reset_master_password ResetPasswordRequest
  | invoke_change_master_password string string
  | invoke_add_password AddPasswordRequest
  | invoke_get_all_passwords GetPasswordsRequest
  | invoke_get_password DecryptPasswordRequest
  | invoke_update_password UpdatePasswordRequest
  | invoke_delete_password DeletePasswordRequest
  | invoke_search_passwords string string
  | invoke_get_password_count
  | invoke_export_data ExportRequest
  | invoke_import_data ImportRequest
  | invoke_preview_import ImportRequest
  | invoke_create_backup string "string option"
  | invoke_validate_export_file string string
  | invoke_get_export_info string
  | invoke_get_app_data_dir
  | invoke_get_default_backup_dir

text \<open>The master key a call sends to the backend: the \<open>master_key\<close> property of its
  request (\<open>masterKey\<close> for \<open>search_passwords\<close>), where the request has one.\<close>

fun request_key :: "invoke \<Rightarrow> string option" where
  "request_key (invoke_add_password r) = AddPasswordRequest.master_key r"
| "request_key (invoke_get_all_passwords r) = Some (GetPasswordsRequest.master_key r)"
| "request_key (invoke_get_password r) = Some (DecryptPasswordRequest.master_key r)"
| "request_key (invoke_update_password r) = UpdatePasswordRequest.master_key r"
| "request_key (invoke_search_passwords query mk) = Some mk"
| "request_key _ = None"

section \<open>utils/api.ts: secureStorage\<close>

text \<open>A Web Storage area (\<open>sessionStorage\<close>, \<open>localStorage\<close>) maps item names to strings;
  \<open>getItem\<close> of a missing item is \<open>null\<close>.\<close>

type_synonym storage = "string \<rightharpoonup> string"

definition setMasterKey :: "string \<Rightarrow> storage \<Rightarrow> storage" where
  "setMasterKey key ss = ss(''masterKey'' \<mapsto> key)"

definition getMasterKey :: "storage \<Rightarrow> string option" where
  "getMasterKey ss = ss ''masterKey''"

definition clearMasterKey :: "storage \<Rightarrow> storage" where
  "clearMasterKey ss = ss(''masterKey'' := None)"

text \<open>\<open>String(isAuthenticated)\<close>\<close>

definition String_of_bool :: "bool \<Rightarrow> string" where
  "String_of_bool b = (if b then ''true'' else ''false'')"

definition setAuthState :: "bool \<Rightarrow> storage \<Rightarrow> storage" where
  "setAuthState b ss = ss(''isAuthenticated'' \<mapsto> String_of_bool b)"

definition getAuthState :: "storage \<Rightarrow> bool" where
  "getAuthState ss = (ss ''isAuthenticated'' = Some ''true'')"

definition clearAuthState :: "storage \<Rightarrow> storage" where
  "clearAuthState ss = ss(''isAuthenticated'' := None)"

definition clearAll :: "storage \<Rightarrow> storage" where
  "clearAll ss = clearAuthState (clearMasterKey ss)"

section \<open>The front end's state\<close>

text \<open>
  What the operations below read and write: the \<open>AuthProvider\<close>'s two state cells
  (\<open>state\<close> and \<open>isLoading\<close>), the two Web Storage areas, \<open>window.location.hash\<close>, and
  the calls made to the backend so far, oldest first.
\<close>

record world =
  state :: AppState
  isLoading :: bool
  sessionStorage :: storage
  localStorage :: storage
  hash :: string
  calls :: "invoke list"

text \<open>i18n: \<open>saveLanguage\<close>, the front end's only write to \<open>localStorage\<close>.\<close>

definition saveLanguage :: "string \<Rightarrow> world \<Rightarrow> world" where
  "saveLanguage language w =
     w\<lparr>localStorage := (localStorage w)(''pwdbox-language'' \<mapsto> language)\<rparr>"

section \<open>AuthProvider\<close>

text \<open>The argument of \<open>useState\<close>.\<close>

definition initial_state :: AppState where
  "initial_state =
     \<lparr>isAuthenticated = False, masterKey = None, isSetup = False, loading = True,
      error = None\<rparr>"

text \<open>\<open>initializeAuth\<close>, the effect run on mount. \<open>isAppSetup\<close> is the backend's answer to
  \<open>is_app_setup\<close>. What \<open>handleApiCall\<close> throws is an \<open>ApiError\<close>, an \<open>Error\<close> instance, so
  the \<open>catch\<close> takes its \<open>message\<close>.\<close>

definition initializeAuth :: "(unit \<Rightarrow> js_thrown + bool) \<Rightarrow> world \<Rightarrow> world" where
  "initializeAuth isAppSetup w =
     (let w1 = w\<lparr>calls := calls w @ [invoke_is_app_setup]\<rparr> in
      case handleApiCall isAppSetup of
        Inr isSetup' \<Rightarrow>
          (let wasAuthenticated = getAuthState (sessionStorage w1);
               masterKey' = getMasterKey (sessionStorage w1)
           in w1\<lparr>state := (state w1)
                  \<lparr>isSetup := isSetup',
                   isAuthenticated := wasAuthenticated \<and> truthy masterKey',
                   masterKey := masterKey',
                   loading := False\<rparr>\<rparr>)
      | Inl e \<Rightarrow>
          w1\<lparr>state := (state w1)\<lparr>loading := False, error := Some (ApiError.message e)\<rparr>\<rparr>)"

text \<open>\<open>login\<close>. \<open>backend\<close> is the backend's \<open>login\<close> command. The result is the
  \<open>AuthResponse\<close> the function resolves to and the state it leaves.\<close>

definition login ::
  "(LoginRequest \<Rightarrow> js_thrown + AuthResponse) \<Rightarrow> string \<Rightarrow> world \<Rightarrow> AuthResponse \<times> world"
where
  "login backend masterPassword w =
     (let request = \<lparr>LoginRequest.master_password = masterPassword\<rparr>;
          w1 = w\<lparr>isLoading := True, state := (state w)\<lparr>error := None\<rparr>,
                 calls := calls w @ [invoke_login request]\<rparr>
      in case handleApiCall (\<lambda>_. backend request) of
           Inr response \<Rightarrow>
             (if AuthResponse.success response \<and> truthy (AuthResponse.master_key response) then
                (response,
                 w1\<lparr>sessionStorage :=
                       setAuthState True
                         (setMasterKey (the (AuthResponse.master_key response)) (sessionStorage w1)),
                    state := (state w1)
                      \<lparr>isAuthenticated := True,
                       masterKey := AuthResponse.master_key response\<rparr>,
                    isLoading := False\<rparr>)
              else
                (response,
                 w1\<lparr>state := (state w1)\<lparr>error := Some (AuthResponse.message response)\<rparr>,
                    isLoading := False\<rparr>))
         | Inl e \<Rightarrow>
             (let errorMessage = ApiError.message e in
              (\<lparr>AuthResponse.success = False, message = errorMessage, master_key = None\<rparr>,
               w1\<lparr>state := (state w1)\<lparr>error := Some errorMessage\<rparr>,
                  isLoading := False\<rparr>)))"

definition logout :: "world \<Rightarrow> world" where
  "logout w =
     w\<lparr>sessionStorage := clearAll (sessionStorage w),
       state := (state w)\<lparr>isAuthenticated := False, masterKey := None, error := None\<rparr>\<rparr>"

definition checkSetup :: "(unit \<Rightarrow> js_thrown + bool) \<Rightarrow> world \<Rightarrow> world" where
  "checkSetup isAppSetup w =
     (let w1 = w\<lparr>calls := calls w @ [invoke_is_app_setup]\<rparr> in
      case handleApiCall isAppSetup of
        Inr isSetup' \<Rightarrow> w1\<lparr>state := (state w1)\<lparr>isSetup := isSetup'\<rparr>\<rparr>
      | Inl e \<Rightarrow> w1\<lparr>state := (state w1)\<lparr>error := Some (ApiError.message e)\<rparr>\<rparr>)"

section \<open>SetupPage\<close>

record SetupFormData =
  masterPassword :: string
  confirmPassword :: string
  question1 :: string
  answer1 :: string
  question2 :: string
  answer2 :: string
  question3 :: string
  answer3 :: string

text \<open>The page's state cells. \<open>errors\<close> is a \<open>Partial<SetupFormData>\<close>: the properties
  that are set, in the order they were set, each with its message.\<close>

record SetupPage =
  formData :: SetupFormData
  errors :: "(string \<times> string) list"
  isLoading :: bool

text \<open>The translation function \<open>t(key, params)\<close> of the language context.\<close>

type_synonym translation = "string \<Rightarrow> (string \<times> string) list \<Rightarrow> string"

text \<open>The object \<open>newErrors\<close> that \<open>validateForm\<close> builds.\<close>

definition newErrors :: "translation \<Rightarrow> SetupFormData \<Rightarrow> (string \<times> string) list" where
  "newErrors t fd =
     (if masterPassword fd = [] then [(''masterPassword'', t ''auth.passwordRequired'' [])]
      else if length (masterPassword fd) < 8 then
        [(''masterPassword'', t ''setup.passwordTooShort'' [])]
      else [])
     @ (if masterPassword fd \<noteq> confirmPassword fd then
          [(''confirmPassword'', t ''setup.passwordMismatch'' [])]
        else [])
     @ (if SetupFormData.question1 fd = [] then
          [(''question1'', t ''setup.questionRequired'' [(''num'', ''1'')])] else [])
     @ (if SetupFormData.answer1 fd = [] then
          [(''answer1'', t ''setup.answerRequired'' [(''num'', ''1'')])] else [])
     @ (if SetupFormData.question2 fd = [] then
          [(''question2'', t ''setup.questionRequired'' [(''num'', ''2'')])] else [])
     @ (if SetupFormData.answer2 fd = [] then
          [(''answer2'', t ''setup.answerRequired'' [(''num'', ''2'')])] else [])
     @ (if SetupFormData.question3 fd = [] then
          [(''question3'', t ''setup.questionRequired'' [(''num'', ''3'')])] else [])
     @ (if SetupFormData.answer3 fd = [] then
          [(''answer3'', t ''setup.answerRequired'' [(''num'', ''3'')])] else [])"

text \<open>\<open>validateForm\<close>: stores \<open>newErrors\<close> and returns whether it has no property.\<close>

definition validateForm :: "translation \<Rightarrow> SetupPage \<Rightarrow> bool \<times> SetupPage" where
  "validateForm t page =
     (let errs = newErrors t (formData page) in (errs = [], page\<lparr>errors := errs\<rparr>))"

text \<open>\<open>handleSubmit\<close> of the setup page. \<open>backend\<close> is the backend's \<open>setup_app\<close> command and
  \<open>isAppSetup\<close> its \<open>is_app_setup\<close>, which \<open>checkSetup\<close> calls.\<close>

definition SetupPage_handleSubmit ::
  "translation \<Rightarrow> (SetupRequest \<Rightarrow> js_thrown + AuthResponse) \<Rightarrow> (unit \<Rightarrow> js_thrown + bool) \<Rightarrow>
   SetupPage \<Rightarrow> world \<Rightarrow> SetupPage \<times> world"
where
  "SetupPage_handleSubmit t backend isAppSetup page w =
     (case validateForm t page of
        (False, page1) \<Rightarrow> (page1, w)
      | (True, page1) \<Rightarrow>
          (let fd = formData page1;
               setupRequest =
                 \<lparr>SetupRequest.master_password = masterPassword fd,
                  question1 = SetupFormData.question1 fd,
                  answer1 = SetupFormData.answer1 fd,
                  question2 = SetupFormData.question2 fd,
                  answer2 = SetupFormData.answer2 fd,
                  question3 = SetupFormData.question3 fd,
                  answer3 = SetupFormData.answer3 fd\<rparr>;
               w1 = w\<lparr>calls := calls w @ [invoke_setup_app setupRequest]\<rparr>
           in case handleApiCall (\<lambda>_. backend setupRequest) of
                Inr response \<Rightarrow>
                  (if AuthResponse.success response \<and> truthy (AuthResponse.master_key response)
                   then
                     (let w2 = w1\<lparr>sessionStorage :=
                                    setAuthState True
                                      (setMasterKey (the (AuthResponse.master_key response))
                                         (sessionStorage w1))\<rparr>;
                          w3 = checkSetup isAppSetup w2
                      in (page1\<lparr>SetupPage.isLoading := False\<rparr>, w3\<lparr>hash := ''/dashboard''\<rparr>))
                   else
                     (page1\<lparr>errors := [(''masterPassword'', AuthResponse.message response)],
                            SetupPage.isLoading := False\<rparr>, w1))
              | Inl e \<Rightarrow>
                  (page1\<lparr>errors := [(''masterPassword'', ApiError.message e)],
                         SetupPage.isLoading := False\<rparr>, w1)))"

section \<open>DashboardPage\<close>

text \<open>The page's state cells.\<close>

record Dashboard =
  passwords :: "PasswordEntry list"
  loading :: bool
  searchQuery :: string
  showAddForm :: bool
  showEditForm :: bool
  editingPassword :: "PasswordEntry option"
  selectedPassword :: "PasswordEntry option"
  showPassword :: "int option"
  showExportModal :: bool
  copiedPasswordId :: "int option"

text \<open>In each handler \<open>backend\<close> is the backend command the handler calls; a handler
  returns the page's state and the front end's state as it leaves them.\<close>

definition loadPasswords ::
  "(GetPasswordsRequest \<Rightarrow> js_thrown + PasswordEntry list PasswordResponse) \<Rightarrow>
   Dashboard \<Rightarrow> world \<Rightarrow> Dashboard \<times> world"
where
  "loadPasswords backend d w =
     (if \<not> truthy (masterKey (state w)) then (d, w)
      else
        (let d1 = d\<lparr>Dashboard.loading := True\<rparr>;
             request =
               \<lparr>GetPasswordsRequest.master_key = the (masterKey (state w)),
                search_query = (if searchQuery d = [] then None else Some (searchQuery d))\<rparr>;
             w1 = w\<lparr>calls := calls w @ [invoke_get_all_passwords request]\<rparr>
         in case handleApiCall (\<lambda>_. backend request) of
              Inr response \<Rightarrow>
                (if PasswordResponse.success response \<and> data response \<noteq> None then
                   (d1\<lparr>passwords := the (data response), Dashboard.loading := False\<rparr>, w1)
                 else (d1\<lparr>Dashboard.loading := False\<rparr>, w1))
            | Inl e \<Rightarrow> (d1\<lparr>Dashboard.loading := False\<rparr>, w1)))"

definition handleSearch ::
  "(string \<Rightarrow> string \<Rightarrow> js_thrown + PasswordEntry list PasswordResponse) \<Rightarrow>
   Dashboard \<Rightarrow> world \<Rightarrow> Dashboard \<times> world"
where
  "handleSearch backend d w =
     (if \<not> truthy (masterKey (state w)) then (d, w)
      else
        (let d1 = d\<lparr>Dashboard.loading := True\<rparr>;
             w1 = w\<lparr>calls := calls w @
                    [invoke_search_passwords (searchQuery d) (the (masterKey (state w)))]\<rparr>
         in case handleApiCall (\<lambda>_. backend (searchQuery d) (the (masterKey (state w)))) of
              Inr response \<Rightarrow>
                (if PasswordResponse.success response \<and> data response \<noteq> None then
                   (d1\<lparr>passwords := the (data response), Dashboard.loading := False\<rparr>, w1)
                 else (d1\<lparr>Dashboard.loading := False\<rparr>, w1))
            | Inl e \<Rightarrow> (d1\<lparr>Dashboard.loading := False\<rparr>, w1)))"

definition handleViewPassword ::
  "(DecryptPasswordRequest \<Rightarrow> js_thrown + PasswordEntry PasswordResponse) \<Rightarrow>
   int \<Rightarrow> Dashboard \<Rightarrow> world \<Rightarrow> Dashboard \<times> world"
where
  "handleViewPassword backend i d w =
     (if \<not> truthy (masterKey (state w)) then (d, w)
      else
        (let request =
               \<lparr>DecryptPasswordRequest.id = i, master_key = the (masterKey (state w))\<rparr>;
             w1 = w\<lparr>calls := calls w @ [invoke_get_password request]\<rparr>
         in case handleApiCall (\<lambda>_. backend request) of
              Inr response \<Rightarrow>
                (if PasswordResponse.success response \<and> data response \<noteq> None then
                   (d\<lparr>showPassword := Some i, selectedPassword := data response\<rparr>, w1)
                 else (d, w1))
            | Inl e \<Rightarrow> (d, w1)))"

definition handleEditPassword ::
  "(DecryptPasswordRequest \<Rightarrow> js_thrown + PasswordEntry PasswordResponse) \<Rightarrow>
   PasswordEntry \<Rightarrow> Dashboard \<Rightarrow> world \<Rightarrow> Dashboard \<times> world"
where
  "handleEditPassword backend entry d w =
     (if \<not> truthy (masterKey (state w)) then (d, w)
      else
        (let request =
               \<lparr>DecryptPasswordRequest.id = PasswordEntry.id entry,
                master_key = the (masterKey (state w))\<rparr>;
             w1 = w\<lparr>calls := calls w @ [invoke_get_password request]\<rparr>
         in case handleApiCall (\<lambda>_. backend request) of
              Inr response \<Rightarrow>
                (if PasswordResponse.success response \<and> data response \<noteq> None then
                   (d\<lparr>editingPassword := data response, showEditForm := True\<rparr>, w1)
                 else (d, w1))
            | Inl e \<Rightarrow> (d, w1)))"

text \<open>\<open>handleDeletePassword\<close>. \<open>confirmed\<close> is the user's answer to \<open>confirm\<close>; \<open>reload\<close> is
  the backend command behind the \<open>loadPasswords\<close> that follows a successful deletion.\<close>

definition handleDeletePassword ::
  "bool \<Rightarrow> (DeletePasswordRequest \<Rightarrow> js_thrown + 'd PasswordResponse) \<Rightarrow>
   (GetPasswordsRequest \<Rightarrow> js_thrown + PasswordEntry list PasswordResponse) \<Rightarrow>
   int \<Rightarrow> Dashboard \<Rightarrow> world \<Rightarrow> Dashboard \<times> world"
where
  "handleDeletePassword confirmed backend reload i d w =
     (if \<not> confirmed then (d, w)
      else
        (let request = \<lparr>DeletePasswordRequest.id = i\<rparr>;
             w1 = w\<lparr>calls := calls w @ [invoke_delete_password request]\<rparr>
         in case handleApiCall (\<lambda>_. backend request) of
              Inr response \<Rightarrow>
                (if PasswordResponse.success response then loadPasswords reload d w1
                 else (d, w1))
            | Inl e \<Rightarrow> (d, w1)))"

subsection \<open>The dashboard's modals\<close>

text \<open>The form of the add and edit modals, as their \<open>useState\<close> initialises it.\<close>

record PasswordFormData =
  software :: string
  account :: string
  password :: string
  "notes" :: string

record PasswordModal =
  formData :: PasswordFormData
  errors :: "(string \<times> string) list"
  isLoading :: bool

text \<open>The checks both modals make before they submit.\<close>

definition modalErrors :: "translation \<Rightarrow> PasswordFormData \<Rightarrow> (string \<times> string) list" where
  "modalErrors t fd =
     (if PasswordFormData.software fd = [] then [(''software'', t ''password.softwareRequired'' [])]
      else [])
     @ (if PasswordFormData.account fd = [] then [(''account'', t ''password.accountRequired'' [])]
        else [])
     @ (if PasswordFormData.password fd = [] then
          [(''password'', t ''password.passwordRequired'' [])] else [])"

text \<open>\<open>handleSubmit\<close> of \<open>AddPasswordModal\<close>; \<open>key\<close> is the value of the modal's
  \<open>masterKey\<close> property. The third component of the result tells whether \<open>onSuccess\<close> was
  called.\<close>

definition AddPasswordModal_handleSubmit ::
  "translation \<Rightarrow> (AddPasswordRequest \<Rightarrow> js_thrown + 'd PasswordResponse) \<Rightarrow>
   string option \<Rightarrow> PasswordModal \<Rightarrow> world \<Rightarrow> PasswordModal \<times> world \<times> bool"
where
  "AddPasswordModal_handleSubmit t backend key m w =
     (let fd = PasswordModal.formData m; errs = modalErrors t fd in
      if errs \<noteq> [] then (m\<lparr>PasswordModal.errors := errs\<rparr>, w, False)
      else
        (let request =
               \<lparr>AddPasswordRequest.software = PasswordFormData.software fd,
                account = PasswordFormData.account fd,
                password = PasswordFormData.password fd,
                notes = PasswordFormData.notes fd,
                master_key = key\<rparr>;
             w1 = w\<lparr>calls := calls w @ [invoke_add_password request]\<rparr>
         in case handleApiCall (\<lambda>_. backend request) of
              Inr response \<Rightarrow>
                (if PasswordResponse.success response then
                   (m\<lparr>PasswordModal.isLoading := False\<rparr>, w1, True)
                 else
                   (m\<lparr>PasswordModal.errors := [(''software'', PasswordResponse.message response)],
                      PasswordModal.isLoading := False\<rparr>, w1, False))
            | Inl e \<Rightarrow>
                (m\<lparr>PasswordModal.errors := [(''software'', ApiError.message e)],
                   PasswordModal.isLoading := False\<rparr>, w1, False)))"

text \<open>\<open>handleSubmit\<close> of \<open>EditPasswordModal\<close>; \<open>entry\<close> is its \<open>password\<close> property.\<close>

definition EditPasswordModal_handleSubmit ::
  "translation \<Rightarrow> (UpdatePasswordRequest \<Rightarrow> js_thrown + 'd PasswordResponse) \<Rightarrow>
   PasswordEntry \<Rightarrow> string option \<Rightarrow> PasswordModal \<Rightarrow> world \<Rightarrow>
   PasswordModal \<times> world \<times> bool"
where
  "EditPasswordModal_handleSubmit t backend entry key m w =
     (let fd = PasswordModal.formData m; errs = modalErrors t fd in
      if errs \<noteq> [] then (m\<lparr>PasswordModal.errors := errs\<rparr>, w, False)
      else
        (let request =
               \<lparr>UpdatePasswordRequest.id = PasswordEntry.id entry,
                software = PasswordFormData.software fd,
                account = PasswordFormData.account fd,
                password = PasswordFormData.password fd,
                notes = PasswordFormData.notes fd,
                master_key = key\<rparr>;
             w1 = w\<lparr>calls := calls w @ [invoke_update_password request]\<rparr>
         in case handleApiCall (\<lambda>_. backend request) of
              Inr response \<Rightarrow>
                (if PasswordResponse.success response then
                   (m\<lparr>PasswordModal.isLoading := False\<rparr>, w1, True)
                 else
                   (m\<lparr>PasswordModal.errors := [(''software'', PasswordResponse.message response)],
                      PasswordModal.isLoading := False\<rparr>, w1, False))
            | Inl e \<Rightarrow>
                (m\<lparr>PasswordModal.errors := [(''software'', ApiError.message e)],
                   PasswordModal.isLoading := False\<rparr>, w1, False)))"

record ExportModal =
  exportPassphrase :: string
  confirmPassphrase :: string
  isLoading :: bool
  exportPath :: string
  errors :: "(string \<times> string) list"

text \<open>\<open>handleExport\<close> of \<open>ExportModal\<close>: \<open>createBackup\<close> is called with the passphrase alone,
  so \<open>backupPath || null\<close> is \<open>null\<close>. The third component of the result tells whether
  \<open>onClose\<close> was called.\<close>

definition handleExport ::
  "translation \<Rightarrow> (string \<Rightarrow> string option \<Rightarrow> js_thrown + ExportResponse) \<Rightarrow>
   ExportModal \<Rightarrow> world \<Rightarrow> ExportModal \<times> world \<times> bool"
where
  "handleExport t backend m w =
     (let errs =
            (if exportPassphrase m = [] then [(''passphrase'', t ''export.passphraseRequired'' [])]
             else [])
            @ (if exportPassphrase m \<noteq> confirmPassphrase m then
                 [(''confirm'', t ''export.passphrasesMismatch'' [])] else [])
      in
      if errs \<noteq> [] then (m\<lparr>ExportModal.errors := errs\<rparr>, w, False)
      else
        (let w1 = w\<lparr>calls := calls w @ [invoke_create_backup (exportPassphrase m) None]\<rparr> in
         case handleApiCall (\<lambda>_. backend (exportPassphrase m) None) of
           Inr response \<Rightarrow>
             (if ExportResponse.success response \<and> truthy (ExportResponse.file_path response)
              then
                (m\<lparr>exportPath := the (ExportResponse.file_path response),
                   ExportModal.isLoading := False\<rparr>, w1, True)
              else
                (m\<lparr>ExportModal.errors :=
                     [(''passphrase'',
                       if ExportResponse.message response \<noteq> [] then ExportResponse.message response
                       else t ''export.failed'' [])],
                   ExportModal.isLoading := False\<rparr>, w1, False))
         | Inl e \<Rightarrow>
             (m\<lparr>ExportModal.errors := [(''passphrase'', ApiError.message e)],
                ExportModal.isLoading := False\<rparr>, w1, False)))"

subsection \<open>The modals as the dashboard renders them\<close>

text \<open>
  The dashboard renders \<open>AddPasswordModal\<close> while \<open>showAddForm\<close> holds, with
  \<open>masterKey={state.masterKey!}\<close> and an \<open>onSuccess\<close> that hides the form and calls
  \<open>loadPasswords\<close>. \<open>DashboardPage_addPassword\<close> is the submission of that modal
  (nothing can be submitted while it is not rendered); \<open>reload\<close> is the backend command
  behind \<open>loadPasswords\<close>.
\<close>

definition DashboardPage_addPassword ::
  "translation \<Rightarrow> (AddPasswordRequest \<Rightarrow> js_thrown + 'd PasswordResponse) \<Rightarrow>
   (GetPasswordsRequest \<Rightarrow> js_thrown + PasswordEntry list PasswordResponse) \<Rightarrow>
   PasswordModal \<Rightarrow> Dashboard \<Rightarrow> world \<Rightarrow> PasswordModal \<times> Dashboard \<times> world"
where
  "DashboardPage_addPassword t backend reload m d w =
     (if \<not> showAddForm d then (m, d, w)
      else
        (case AddPasswordModal_handleSubmit t backend (masterKey (state w)) m w of
           (m1, w1, True) \<Rightarrow>
             (case loadPasswords reload (d\<lparr>showAddForm := False\<rparr>) w1 of
                (d1, w2) \<Rightarrow> (m1, d1, w2))
         | (m1, w1, False) \<Rightarrow> (m1, d, w1)))"

text \<open>
  \<open>EditPasswordModal\<close> is rendered while \<open>showEditForm\<close> holds and \<open>editingPassword\<close> is
  set, with \<open>password={editingPassword}\<close>, \<open>masterKey={state.masterKey!}\<close> and an
  \<open>onSuccess\<close> that hides the form, clears \<open>editingPassword\<close> and calls \<open>loadPasswords\<close>.
\<close>

definition DashboardPage_editPassword ::
  "translation \<Rightarrow> (UpdatePasswordRequest \<Rightarrow> js_thrown + 'd PasswordResponse) \<Rightarrow>
   (GetPasswordsRequest \<Rightarrow> js_thrown + PasswordEntry list PasswordResponse) \<Rightarrow>
   PasswordModal \<Rightarrow> Dashboard \<Rightarrow> world \<Rightarrow> PasswordModal \<times> Dashboard \<times> world"
where
  "DashboardPage_editPassword t backend reload m d w =
     (case (showEditForm d, editingPassword d) of
        (True, Some entry) \<Rightarrow>
          (case EditPasswordModal_handleSubmit t backend entry (masterKey (state w)) m w of
             (m1, w1, True) \<Rightarrow>
               (case loadPasswords reload (d\<lparr>showEditForm := False, editingPassword := None\<rparr>) w1 of
                  (d1, w2) \<Rightarrow> (m1, d1, w2))
           | (m1, w1, False) \<Rightarrow> (m1, d, w1))
      | _ \<Rightarrow> (m, d, w))"

text \<open>\<open>ExportModal\<close> is rendered while \<open>showExportModal\<close> holds, with an \<open>onClose\<close> that
  hides it.\<close>

definition DashboardPage_export ::
  "translation \<Rightarrow> (string \<Rightarrow> string option \<Rightarrow> js_thrown + ExportResponse) \<Rightarrow>
   ExportModal \<Rightarrow> Dashboard \<Rightarrow> world \<Rightarrow> ExportModal \<times> Dashboard \<times> world"
where
  "DashboardPage_export t backend m d w =
     (if \<not> showExportModal d then (m, d, w)
      else
        (case handleExport t backend m w of
           (m1, w1, True) \<Rightarrow> (m1, d\<lparr>showExportModal := False\<rparr>, w1)
         | (m1, w1, False) \<Rightarrow> (m1, d, w1)))"

section \<open>utils/api.ts: import\<close>

text \<open>\<open>exportApi.importData\<close>: it passes its request to the backend's \<open>import_data\<close> and
  returns what that settles to. No page calls it.\<close>

definition importData ::
  "(ImportRequest \<Rightarrow> js_thrown + ImportResponse) \<Rightarrow> ImportRequest \<Rightarrow> world \<Rightarrow>
   (js_thrown + ImportResponse) \<times> world"
where
  "importData backend request w =
     (backend request, w\<lparr>calls := calls w @ [invoke_import_data request]\<rparr>)"

section \<open>Runs of the AuthProvider\<close>

text \<open>The transitions of the provider's state: the effect on mount, \<open>login\<close> (with the
  backend's \<open>login\<close> command as it answers this call), \<open>logout\<close> and \<open>checkSetup\<close>.\<close>

datatype event =
    Mount "unit \<Rightarrow> js_thrown + bool"
  | Login "LoginRequest \<Rightarrow> js_thrown + AuthResponse" string
  | Logout
  | CheckSetup "unit \<Rightarrow> js_thrown + bool"

fun step :: "event \<Rightarrow> world \<Rightarrow> world" where
  "step (Mount isAppSetup) w = initializeAuth isAppSetup w"
| "step (Login backend pw) w = snd (login backend pw w)"
| "step Logout w = logout w"
| "step (CheckSetup isAppSetup) w = checkSetup isAppSetup w"

fun run :: "event list \<Rightarrow> world \<Rightarrow> world" where
  "run [] w = w"
| "run (e # es) w = run es (step e w)"

section \<open>The engine behind the \<open>setup_app\<close>, \<open>login\<close> and \<open>verify_recovery_answers\<close> commands\<close>

type_synonym bytes = "8 word list"

text \<open>The key derivation function \<open>derive(secret, salt, params)\<close> of the engine.\<close>

type_synonym 'p kdf = "string \<Rightarrow> bytes \<Rightarrow> 'p \<Rightarrow> bytes"

record 'p MasterSecretRecord =
  kdf_salt :: bytes
  verification_hash :: bytes
  kdf_params :: 'p

datatype 'p verifier = Unconfigured | Configured "'p MasterSecretRecord"

text \<open>
  Modelled from the spec: the Rust command \<open>login\<close> is not among the sources. Section 4.3:
  \<open>unlock(candidate_password)\<close> derives \<open>h = KDF(candidate_password, stored_salt)\<close> and
  compares it to \<open>verification_hash\<close>; on a match it derives the working key by a second
  derivation from the same password (\<open>working_key\<close>) and answers with it in \<open>master_key\<close>;
  on a mismatch it returns \<open>InvalidCredentials\<close>, and \<open>NotSetup\<close> where no
  \<open>MasterSecretRecord\<close> exists.
\<close>

definition unlock ::
  "'p kdf \<Rightarrow> (string \<Rightarrow> 'p MasterSecretRecord \<Rightarrow> string) \<Rightarrow> 'p verifier \<Rightarrow>
   LoginRequest \<Rightarrow> js_thrown + AuthResponse"
where
  "unlock derive working_key v request =
     (case v of
        Unconfigured \<Rightarrow>
          Inr \<lparr>AuthResponse.success = False, message = ''NotSetup'', master_key = None\<rparr>
      | Configured r \<Rightarrow>
          (if derive (LoginRequest.master_password request) (kdf_salt r)
                (MasterSecretRecord.kdf_params r) = verification_hash r
           then
             Inr \<lparr>AuthResponse.success = True, message = ''Unlocked'',
                  master_key = Some (working_key (LoginRequest.master_password request) r)\<rparr>
           else
             Inr \<lparr>AuthResponse.success = False, message = ''InvalidCredentials'',
                  master_key = None\<rparr>))"

datatype engine_error = AlreadySetup

text \<open>
  Modelled from the spec: the Rust command \<open>setup_app\<close> is not among the sources.
  Section 4.3: \<open>setup(candidate_password, ...)\<close> is only valid from \<open>Unconfigured\<close>; it
  computes \<open>verification_hash = KDF(candidate_password, salt)\<close> with a fresh salt and
  stores the \<open>MasterSecretRecord\<close>, and fails with \<open>AlreadySetup\<close> otherwise. \<open>salt\<close> and
  \<open>params\<close> are the fresh salt and the cost parameters it takes.
\<close>

definition setup_master_secret ::
  "'p kdf \<Rightarrow> bytes \<Rightarrow> 'p \<Rightarrow> string \<Rightarrow> 'p verifier \<Rightarrow> engine_error + 'p verifier"
where
  "setup_master_secret derive salt params candidate_password v =
     (case v of
        Unconfigured \<Rightarrow>
          Inr (Configured
                 \<lparr>kdf_salt = salt, verification_hash = derive candidate_password salt params,
                  kdf_params = params\<rparr>)
      | Configured r \<Rightarrow> Inl AlreadySetup)"

record 'p SecurityQuestionRecord =
  question_text :: string
  answer_salt :: bytes
  answer_hash :: bytes
  kdf_params :: 'p

text \<open>
  Modelled from the spec: the Rust command \<open>verify_recovery_answers\<close> is not among the
  sources. Section 4.5: \<open>verify_answers(a1, a2, a3)\<close> recomputes each
  \<open>KDF(answer_i, salt_i)\<close> and compares it to the stored hash, all three required. The
  three stored questions are \<open>q1\<close>, \<open>q2\<close> and \<open>q3\<close>.
\<close>

definition verify_answers ::
  "'p kdf \<Rightarrow> 'p SecurityQuestionRecord \<Rightarrow> 'p SecurityQuestionRecord \<Rightarrow>
   'p SecurityQuestionRecord \<Rightarrow> RecoveryRequest \<Rightarrow> bool"
where
  "verify_answers derive q1 q2 q3 request =
     (derive (RecoveryRequest.answer1 request) (answer_salt q1)
        (SecurityQuestionRecord.kdf_params q1) = answer_hash q1
      \<and> derive (RecoveryRequest.answer2 request) (answer_salt q2)
          (SecurityQuestionRecord.kdf_params q2) = answer_hash q2
      \<and> derive (RecoveryRequest.answer3 request) (answer_salt q3)
          (SecurityQuestionRecord.kdf_params q3) = answer_hash q3)"

section \<open>Sample inputs\<close>

text \<open>A password of eleven code units with a line feed after the eighth.\<close>

definition line_break_password :: string where
  "line_break_password = ''aaaaaaaa'' @ [CHR 0x0A] @ ''A1''"

text \<open>The front end before the effect on mount has run, and a configured, locked one.\<close>

definition fresh_world :: world where
  "fresh_world =
     \<lparr>state = initial_state, isLoading = False, sessionStorage = Map.empty,
      localStorage = Map.empty, hash = [], calls = []\<rparr>"

definition locked_world :: world where
  "locked_world =
     \<lparr>state = \<lparr>isAuthenticated = False, masterKey = None, isSetup = True, loading = False,
               error = None\<rparr>,
      isLoading = False, sessionStorage = Map.empty, localStorage = Map.empty,
      hash = ''/login'', calls = []\<rparr>"

text \<open>A backend \<open>login\<close> command that accepts and answers with the key \<open>a2V5\<close>.\<close>

definition granting :: "LoginRequest \<Rightarrow> js_thrown + AuthResponse" where
  "granting request =
     Inr \<lparr>AuthResponse.success = True, message = ''Unlocked'', master_key = Some ''a2V5''\<rparr>"

text \<open>The locked front end after a login that the backend accepts.\<close>

definition unlocked_world :: world where
  "unlocked_world = snd (login granting ''Tr0ub4dor!'' locked_world)"

text \<open>A stand-in key derivation (the secret's code units after the salt) and the
  \<open>MasterSecretRecord\<close> that a setup with the password \<open>Tr0ub4dor!\<close> stores under it.\<close>

definition sample_kdf :: "unit kdf" where
  "sample_kdf secret salt params = salt @ map of_char secret"


text \<open>A dashboard that has loaded nothing yet, and backend commands that list no
  entries and that confirm a deletion.\<close>

definition sample_dashboard :: Dashboard where
  "sample_dashboard =
     \<lparr>passwords = [], loading = True, searchQuery = [], showAddForm = False,
      showEditForm = False, editingPassword = None, selectedPassword = None,
      showPassword = None, showExportModal = False, copiedPasswordId = None\<rparr>"

definition listing :: "GetPasswordsRequest \<Rightarrow> js_thrown + PasswordEntry list PasswordResponse" where
  "listing request = Inr \<lparr>PasswordResponse.success = True, message = [], data = Some []\<rparr>"

definition deleting :: "DeletePasswordRequest \<Rightarrow> js_thrown + unit PasswordResponse" where
  "deleting request =
     Inr \<lparr>PasswordResponse.success = True, message = ''Password deleted'', data = None\<rparr>"

text \<open>A completed setup form, the same with the third answer left empty, and a backend
  \<open>setup_app\<close> command that accepts.\<close>

definition complete_form :: SetupFormData where
  "complete_form =
     \<lparr>masterPassword = ''Tr0ub4dor!'', confirmPassword = ''Tr0ub4dor!'',
      question1 = ''First pet?'', answer1 = ''Rex'',
      question2 = ''Birth city?'', answer2 = ''Oslo'',
      question3 = ''First school?'', answer3 = ''North''\<rparr>"

definition setup_page :: "SetupFormData \<Rightarrow> SetupPage" where
  "setup_page fd = \<lparr>SetupPage.formData = fd, errors = [], isLoading = False\<rparr>"

definition accepting :: "SetupRequest \<Rightarrow> js_thrown + AuthResponse" where
  "accepting request =
     Inr \<lparr>AuthResponse.success = True, message = ''Setup complete'', master_key = Some ''a2V5''\<rparr>"

text \<open>A translation that answers with the key itself.\<close>

definition plain :: translation where
  "plain k params = k"

text \<open>Three stored security questions under the stand-in key derivation, for the
  answers \<open>Rex\<close>, \<open>Oslo\<close> and \<open>North\<close>.\<close>

definition sample_question :: "string \<Rightarrow> bytes \<Rightarrow> string \<Rightarrow> unit SecurityQuestionRecord" where
  "sample_question q salt a =
     \<lparr>question_text = q, answer_salt = salt, answer_hash = sample_kdf a salt (),
      kdf_params = ()\<rparr>"

text \<open>A filled form of the add and edit modals, a stored entry, a filled export form,
  and backend commands that accept them.\<close>

definition sample_modal :: PasswordModal where
  "sample_modal =
     \<lparr>PasswordModal.formData =
        \<lparr>PasswordFormData.software = ''example'', account = ''user'', password = ''s3cr3t'',
         notes = []\<rparr>,
      errors = [], isLoading = False\<rparr>"

definition sample_entry :: PasswordEntry where
  "sample_entry =
     \<lparr>PasswordEntry.id = 7, software = ''example'', account = ''user'', password = None,
      created_at = None\<rparr>"

definition sample_export :: ExportModal where
  "sample_export =
     \<lparr>exportPassphrase = ''horse'', confirmPassphrase = ''horse'', isLoading = False,
      exportPath = [], errors = []\<rparr>"

text \<open>Dashboards that show the add form, the edit form for the stored entry and the
  export modal; backend commands that accept an addition and an update; an import
  request.\<close>

definition adding_dashboard :: Dashboard where
  "adding_dashboard = sample_dashboard\<lparr>showAddForm := True\<rparr>"

definition editing_dashboard :: Dashboard where
  "editing_dashboard = sample_dashboard\<lparr>showEditForm := True, editingPassword := Some sample_entry\<rparr>"

definition exporting_dashboard :: Dashboard where
  "exporting_dashboard = sample_dashboard\<lparr>showExportModal := True\<rparr>"

definition storing :: "AddPasswordRequest \<Rightarrow> js_thrown + unit PasswordResponse" where
  "storing request =
     Inr \<lparr>PasswordResponse.success = True, message = ''Password added'', data = None\<rparr>"

definition updating :: "UpdatePasswordRequest \<Rightarrow> js_thrown + unit PasswordResponse" where
  "updating request =
     Inr \<lparr>PasswordResponse.success = True, message = ''Password updated'', data = None\<rparr>"

definition sample_import :: ImportRequest where
  "sample_import = \<lparr>import_passphrase = ''horse'', file_path = ''/tmp/vault.bak''\<rparr>"



section \<open>The session invariant\<close>

text \<open>A state that counts as authenticated holds a non-empty key.\<close>

definition unlocked_ok :: "AppState \<Rightarrow> bool" where
  "unlocked_ok s = (if isAuthenticated s then truthy (masterKey s) else True)"

section \<open>Error normalisation\<close>

text \<open>
  C10. \<open>handleApiCall\<close> returns the value of the wrapped call unchanged; when the call
  throws, it rejects with an \<open>ApiError\<close> (the only kind of error its result type has)
  whose message is the thrown string, the thrown \<open>Error\<close>'s message, or
  \<open>An unknown error occurred\<close> for any other thrown value. A failure is never turned
  into a value.
\<close>

theorem handleApiCall_normalises:
  "(case apiCall () of
      Inr v \<Rightarrow> handleApiCall apiCall = Inr v
    | Inl thrown \<Rightarrow>
        (\<exists>e. handleApiCall apiCall = Inl e \<and> name e = ''ApiError''
           \<and> ApiError.message e =
               (case thrown of
                  ThrownString s \<Rightarrow> s
                | ThrownError m \<Rightarrow> m
                | ThrownOther \<Rightarrow> ''An unknown error occurred'')))"
  by (simp add: handleApiCall_def new_ApiError_def split: sum.split js_thrown.split)

section \<open>Password validation\<close>

lemma look_Cons:
  "residuals (Seq (StarClass D) (Class C)) (c # cs) \<noteq> [] \<longleftrightarrow>
     C c \<or> (D c \<and> residuals (Seq (StarClass D) (Class C)) cs \<noteq> [])"
  by simp

lemma look_all:
  "\<forall>c\<in>set s. D c \<Longrightarrow>
     residuals (Seq (StarClass D) (Class C)) s \<noteq> [] \<longleftrightarrow> (\<exists>c\<in>set s. C c)"
proof (induction s)
  case Nil
  show ?case by simp
next
  case (Cons c cs)
  then have "residuals (Seq (StarClass D) (Class C)) cs \<noteq> [] \<longleftrightarrow> (\<exists>c\<in>set cs. C c)"
    by simp
  moreover have "D c" using Cons.prems by simp
  ultimately show ?case unfolding look_Cons by auto
qed

lemma lookahead_nonempty: "residuals (Lookahead a) s \<noteq> [] \<longleftrightarrow> residuals a s \<noteq> []"
  by simp

lemma lookahead_then:
  "residuals (Seq (Lookahead a) b) s \<noteq> [] \<longleftrightarrow> residuals a s \<noteq> [] \<and> residuals b s \<noteq> []"
  by (cases "residuals a s = []") simp_all

lemma password_regex_residuals:
  "residuals password_regex s \<noteq> [] \<longleftrightarrow>
     residuals (Seq (StarClass dot) (Class lower)) s \<noteq> []
     \<and> residuals (Seq (StarClass dot) (Class upper)) s \<noteq> []
     \<and> residuals (Seq (StarClass dot) (Class digit)) s \<noteq> []"
  unfolding password_regex_def lookahead_then lookahead_nonempty ..

lemma password_regex_single_line:
  "\<forall>c\<in>set s. dot c \<Longrightarrow>
     regex_test password_regex s \<longleftrightarrow>
       (\<exists>c\<in>set s. lower c) \<and> (\<exists>c\<in>set s. upper c) \<and> (\<exists>c\<in>set s. digit c)"
proof (induction s)
  case Nil
  show ?case by (simp add: password_regex_def)
next
  case (Cons c cs)
  have here: "residuals password_regex (c # cs) \<noteq> [] \<longleftrightarrow>
      (\<exists>x\<in>set (c # cs). lower x) \<and> (\<exists>x\<in>set (c # cs). upper x) \<and> (\<exists>x\<in>set (c # cs). digit x)"
    unfolding password_regex_residuals using look_all[OF Cons.prems] by blast
  have rest: "regex_test password_regex cs \<longleftrightarrow>
      (\<exists>x\<in>set cs. lower x) \<and> (\<exists>x\<in>set cs. upper x) \<and> (\<exists>x\<in>set cs. digit x)"
    using Cons by simp
  show ?case unfolding regex_test.simps here rest by auto
qed

text \<open>On a password without a line terminator the validation accepts exactly the
  passwords of at least 8 code units with a lowercase letter, an uppercase letter and a
  digit.\<close>

lemma validatePassword_single_line:
  "\<forall>c\<in>set p. \<not> line_terminator c \<Longrightarrow>
     isValid (validatePassword p) \<longleftrightarrow>
       8 \<le> length p \<and> (\<exists>c\<in>set p. lower c) \<and> (\<exists>c\<in>set p. upper c) \<and> (\<exists>c\<in>set p. digit c)"
  using password_regex_single_line[of p] by (auto simp: validatePassword_def dot_def)

text \<open>
  C9. \<open>validatePassword p\<close> is valid exactly when \<open>p\<close> has at least 8 code units and
  contains a lowercase letter, an uppercase letter and a digit. It is not so on a
  password with a line break: \<open>line_break_password\<close> has 11 code units, a lowercase
  letter, an uppercase letter and a digit, and is rejected with the message that it must
  contain one of each, since \<open>.\<close> in the expression stops at the line feed.
\<close>

theorem validatePassword_rejects_line_break:
  "8 \<le> length line_break_password
   \<and> list_ex lower line_break_password
   \<and> list_ex upper line_break_password
   \<and> list_ex digit line_break_password
   \<and> validatePassword line_break_password =
       \<lparr>isValid = False,
        message = Some ''Password must contain at least one lowercase letter, one uppercase letter, and one number''\<rparr>"
  by (simp add: line_break_password_def validatePassword_def password_regex_def
        dot_def lower_def upper_def digit_def line_terminator_def)

section \<open>Logout\<close>

text \<open>
  C4. \<open>logout\<close> discards the key at once: the items \<open>masterKey\<close> and \<open>isAuthenticated\<close>
  are gone from the session storage, and the provider's state has \<open>isAuthenticated\<close>
  false, \<open>masterKey\<close> null and \<open>error\<close> null, its other fields as before.
\<close>

theorem logout_discards_key:
  "sessionStorage (logout w) ''masterKey'' = None
   \<and> sessionStorage (logout w) ''isAuthenticated'' = None
   \<and> getMasterKey (sessionStorage (logout w)) = None
   \<and> \<not> getAuthState (sessionStorage (logout w))
   \<and> state (logout w) = (state w)\<lparr>isAuthenticated := False, masterKey := None, error := None\<rparr>
   \<and> \<not> isAuthenticated (state (logout w))
   \<and> masterKey (state (logout w)) = None
   \<and> error (state (logout w)) = None
   \<and> isSetup (state (logout w)) = isSetup (state w)"
  by (simp add: logout_def clearAll_def clearAuthState_def clearMasterKey_def
        getMasterKey_def getAuthState_def)

section \<open>The session invariant holds in every run\<close>

lemma initializeAuth_ok: "unlocked_ok (state w) \<Longrightarrow> unlocked_ok (state (initializeAuth f w))"
  by (cases "handleApiCall f") (simp_all add: initializeAuth_def unlocked_ok_def Let_def)

lemma login_ok: "unlocked_ok (state w) \<Longrightarrow> unlocked_ok (state (snd (login b p w)))"
  by (cases "handleApiCall (\<lambda>_. b \<lparr>LoginRequest.master_password = p\<rparr>)")
     (simp_all add: login_def unlocked_ok_def Let_def)

lemma logout_ok: "unlocked_ok (state (logout w))"
  by (simp add: logout_def unlocked_ok_def)

lemma checkSetup_ok: "unlocked_ok (state w) \<Longrightarrow> unlocked_ok (state (checkSetup f w))"
  by (cases "handleApiCall f") (simp_all add: checkSetup_def unlocked_ok_def Let_def)

lemma step_ok: "unlocked_ok (state w) \<Longrightarrow> unlocked_ok (state (step e w))"
  by (cases e) (simp_all add: initializeAuth_ok login_ok logout_ok checkSetup_ok)

lemma run_ok: "unlocked_ok (state w) \<Longrightarrow> unlocked_ok (state (run es w))"
  by (induction es arbitrary: w) (simp_all add: step_ok)

text \<open>
  C8. In every state the \<open>AuthProvider\<close> reaches from its initial state by the effect on
  mount, logins that succeed or fail, logouts and setup checks, whatever the backend
  answers and whatever the session storage held, \<open>isAuthenticated\<close> implies that
  \<open>masterKey\<close> is not null.
\<close>

theorem authenticated_has_key:
  assumes "state w = initial_state"
  shows "isAuthenticated (state (run es w)) \<longrightarrow> masterKey (state (run es w)) \<noteq> None"
proof -
  have "unlocked_ok (state w)" using assms by (simp add: unlocked_ok_def initial_state_def)
  then have "unlocked_ok (state (run es w))" by (rule run_ok)
  then show ?thesis by (auto simp: unlocked_ok_def truthy_def split: if_splits option.splits)
qed

theorem authenticated_has_key_witness:
  "state fresh_world = initial_state
   \<and> isAuthenticated (state (run [Mount (\<lambda>_. Inr True), Login granting ''Tr0ub4dor!''] fresh_world))
   \<and> masterKey (state (run [Mount (\<lambda>_. Inr True), Login granting ''Tr0ub4dor!''] fresh_world)) \<noteq> None"
proof -
  have h: "state fresh_world = initial_state" by (simp add: fresh_world_def)
  have a: "isAuthenticated (state (run [Mount (\<lambda>_. Inr True), Login granting ''Tr0ub4dor!''] fresh_world))"
    by (simp add: fresh_world_def initializeAuth_def login_def granting_def handleApiCall_def
          truthy_def Let_def)
  show ?thesis
    using h a authenticated_has_key [OF h, of "[Mount (\<lambda>_. Inr True), Login granting ''Tr0ub4dor!'']"]
    by simp
qed

section \<open>Login with a wrong master password\<close>

text \<open>Whatever the backend answers, a login that is not granted (no successful response
  with a non-empty key) leaves the session and the session storage as they were.\<close>

lemma login_not_granted:
  assumes "\<And>r. backend \<lparr>LoginRequest.master_password = pw\<rparr> = Inr r \<Longrightarrow>
             \<not> (AuthResponse.success r \<and> truthy (AuthResponse.master_key r))"
  shows "isAuthenticated (state (snd (login backend pw w))) = isAuthenticated (state w)
         \<and> masterKey (state (snd (login backend pw w))) = masterKey (state w)
         \<and> sessionStorage (snd (login backend pw w)) = sessionStorage w"
proof (cases "backend \<lparr>LoginRequest.master_password = pw\<rparr>")
  case (Inl e)
  then show ?thesis
    by (cases e) (simp_all add: login_def handleApiCall_def Let_def)
next
  case (Inr r)
  with assms [OF Inr] show ?thesis
    by (auto simp: login_def handleApiCall_def Let_def)
qed

text \<open>A key derivation whose output always has 32 bytes sends two different secrets to
  the same hash: there are infinitely many secrets and finitely many hashes.\<close>

lemma kdf_collision:
  fixes derive :: "'p kdf"
  assumes "\<And>secret. length (derive secret salt params) = 32"
  shows "\<exists>P P'. P \<noteq> P' \<and> derive P salt params = derive P' salt params"
proof (rule ccontr)
  assume "\<not> ?thesis"
  then have i: "inj (\<lambda>secret. derive secret salt params)"
    by (auto simp: inj_on_def)
  have "range (\<lambda>secret. derive secret salt params) \<subseteq> {xs. set xs \<subseteq> UNIV \<and> length xs = 32}"
    using assms by auto
  moreover have "finite {xs :: bytes. set xs \<subseteq> UNIV \<and> length xs = 32}"
    by (rule finite_lists_length_eq) simp
  ultimately have "finite (range (\<lambda>secret. derive secret salt params))"
    by (rule finite_subset)
  then have "finite (UNIV :: string set)"
    using i by (rule finite_imageD)
  then show False
    by (simp add: infinite_UNIV_listI)
qed

text \<open>So under every such key derivation some password other than the configured one
  unlocks.\<close>

lemma some_wrong_password_unlocks:
  fixes derive :: "'p kdf"
  assumes "\<And>secret. length (derive secret salt params) = 32"
  shows "\<exists>P P' v. P \<noteq> P'
           \<and> setup_master_secret derive salt params P Unconfigured = Inr v
           \<and> AuthResponse.success (fst (login (unlock derive working_key v) P' w))"
proof -
  from kdf_collision [of derive salt params, OF assms]
  obtain P P' where d: "P \<noteq> P'" and c: "derive P salt params = derive P' salt params"
    by blast
  let ?v = "Configured \<lparr>kdf_salt = salt, verification_hash = derive P salt params,
                         kdf_params = params\<rparr>"
  have s: "setup_master_secret derive salt params P Unconfigured = Inr ?v"
    by (simp add: setup_master_secret_def)
  have l: "AuthResponse.success (fst (login (unlock derive working_key ?v) P' w))"
    using c by (simp add: login_def unlock_def handleApiCall_def Let_def)
  from d s l show ?thesis by blast
qed




section \<open>Record operations without a key\<close>

lemma loadPasswords_no_key: "\<not> truthy (masterKey (state w)) \<Longrightarrow> loadPasswords b d w = (d, w)"
  by (simp add: loadPasswords_def)

lemma handleSearch_no_key: "\<not> truthy (masterKey (state w)) \<Longrightarrow> handleSearch b d w = (d, w)"
  by (simp add: handleSearch_def)

lemma handleViewPassword_no_key:
  "\<not> truthy (masterKey (state w)) \<Longrightarrow> handleViewPassword b i d w = (d, w)"
  by (simp add: handleViewPassword_def)

lemma handleEditPassword_no_key:
  "\<not> truthy (masterKey (state w)) \<Longrightarrow> handleEditPassword b entry d w = (d, w)"
  by (simp add: handleEditPassword_def)

lemma handleDeletePassword_no_key:
  "\<not> truthy (masterKey (state w)) \<Longrightarrow>
     calls (snd (handleDeletePassword True b reload i d w)) =
       calls w @ [invoke_delete_password \<lparr>DeletePasswordRequest.id = i\<rparr>]"
  by (simp add: handleDeletePassword_def loadPasswords_def Let_def split: sum.split)

text \<open>What a modal's submission leaves of the front end's state: the one call it makes,
  when its form is complete.\<close>

lemma world_AddPasswordModal:
  "modalErrors t (PasswordModal.formData m) = [] \<Longrightarrow>
     fst (snd (AddPasswordModal_handleSubmit t b key m w)) =
       w\<lparr>calls := calls w @
            [invoke_add_password
               \<lparr>AddPasswordRequest.software = PasswordFormData.software (PasswordModal.formData m),
                account = PasswordFormData.account (PasswordModal.formData m),
                password = PasswordFormData.password (PasswordModal.formData m),
                notes = PasswordFormData.notes (PasswordModal.formData m),
                master_key = key\<rparr>]\<rparr>"
  by (simp add: AddPasswordModal_handleSubmit_def Let_def split: sum.split)

lemma world_EditPasswordModal:
  "modalErrors t (PasswordModal.formData m) = [] \<Longrightarrow>
     fst (snd (EditPasswordModal_handleSubmit t b entry key m w)) =
       w\<lparr>calls := calls w @
            [invoke_update_password
               \<lparr>UpdatePasswordRequest.id = PasswordEntry.id entry,
                software = PasswordFormData.software (PasswordModal.formData m),
                account = PasswordFormData.account (PasswordModal.formData m),
                password = PasswordFormData.password (PasswordModal.formData m),
                notes = PasswordFormData.notes (PasswordModal.formData m),
                master_key = key\<rparr>]\<rparr>"
  by (simp add: EditPasswordModal_handleSubmit_def Let_def split: sum.split)

lemma calls_loadPasswords_prefix:
  "\<exists>rest. calls (snd (loadPasswords b d w)) = calls w @ rest"
  by (simp add: loadPasswords_def Let_def split: sum.split)

lemma world_DashboardPage_addPassword:
  assumes "showAddForm d"
  shows "snd (snd (DashboardPage_addPassword t b reload m d w)) =
           (if snd (snd (AddPasswordModal_handleSubmit t b (masterKey (state w)) m w)) then
              snd (loadPasswords reload (d\<lparr>showAddForm := False\<rparr>)
                     (fst (snd (AddPasswordModal_handleSubmit t b (masterKey (state w)) m w))))
            else fst (snd (AddPasswordModal_handleSubmit t b (masterKey (state w)) m w)))"
  using assms
  by (cases "AddPasswordModal_handleSubmit t b (masterKey (state w)) m w")
     (auto simp: DashboardPage_addPassword_def split: prod.split bool.split)

lemma world_DashboardPage_editPassword:
  assumes "showEditForm d" and "editingPassword d = Some entry"
  shows "snd (snd (DashboardPage_editPassword t b reload m d w)) =
           (if snd (snd (EditPasswordModal_handleSubmit t b entry (masterKey (state w)) m w)) then
              snd (loadPasswords reload (d\<lparr>showEditForm := False, editingPassword := None\<rparr>)
                     (fst (snd (EditPasswordModal_handleSubmit t b entry (masterKey (state w)) m w))))
            else fst (snd (EditPasswordModal_handleSubmit t b entry (masterKey (state w)) m w)))"
  using assms
  by (cases "EditPasswordModal_handleSubmit t b entry (masterKey (state w)) m w")
     (auto simp: DashboardPage_editPassword_def split: prod.split bool.split)

lemma DashboardPage_addPassword_no_key:
  assumes "\<not> truthy (masterKey (state w))" and "showAddForm d"
    and "modalErrors t (PasswordModal.formData m) = []"
  shows "calls (snd (snd (DashboardPage_addPassword t b reload m d w))) =
           calls w @
           [invoke_add_password
              \<lparr>AddPasswordRequest.software = PasswordFormData.software (PasswordModal.formData m),
               account = PasswordFormData.account (PasswordModal.formData m),
               password = PasswordFormData.password (PasswordModal.formData m),
               notes = PasswordFormData.notes (PasswordModal.formData m),
               master_key = masterKey (state w)\<rparr>]"
  using assms(1)
  by (simp add: world_DashboardPage_addPassword [OF assms(2)] world_AddPasswordModal [OF assms(3)]
        loadPasswords_no_key)

lemma DashboardPage_editPassword_no_key:
  assumes "\<not> truthy (masterKey (state w))" and "showEditForm d" and "editingPassword d = Some entry"
    and "modalErrors t (PasswordModal.formData m) = []"
  shows "calls (snd (snd (DashboardPage_editPassword t b reload m d w))) =
           calls w @
           [invoke_update_password
              \<lparr>UpdatePasswordRequest.id = PasswordEntry.id entry,
               software = PasswordFormData.software (PasswordModal.formData m),
               account = PasswordFormData.account (PasswordModal.formData m),
               password = PasswordFormData.password (PasswordModal.formData m),
               notes = PasswordFormData.notes (PasswordModal.formData m),
               master_key = masterKey (state w)\<rparr>]"
  using assms(1)
  by (simp add: world_DashboardPage_editPassword [OF assms(2) assms(3)]
        world_EditPasswordModal [OF assms(4)] loadPasswords_no_key)

text \<open>
  C5, as the claim states it, fails: with no master key in the session, three record
  operations still call the backend. \<open>handleDeletePassword\<close>, once the user confirms,
  calls \<open>delete_password\<close>; the add modal and the edit modal, submitted with their
  forms filled, call \<open>add_password\<close> and \<open>update_password\<close> with \<open>master_key\<close> null.
\<close>

theorem unguarded_operations_call_backend:
  "masterKey (state locked_world) = None
   \<and> calls locked_world = []
   \<and> calls (snd (handleDeletePassword True deleting listing 7 sample_dashboard locked_world)) =
       [invoke_delete_password \<lparr>DeletePasswordRequest.id = 7\<rparr>]
   \<and> calls (snd (snd (DashboardPage_addPassword plain storing listing sample_modal
                        adding_dashboard locked_world))) =
       [invoke_add_password
          \<lparr>AddPasswordRequest.software = ''example'', account = ''user'', password = ''s3cr3t'',
           notes = [], master_key = None\<rparr>]
   \<and> calls (snd (snd (DashboardPage_editPassword plain updating listing sample_modal
                        editing_dashboard locked_world))) =
       [invoke_update_password
          \<lparr>UpdatePasswordRequest.id = 7, software = ''example'', account = ''user'',
           password = ''s3cr3t'', notes = [], master_key = None\<rparr>]"
  by (simp add: locked_world_def handleDeletePassword_def deleting_def handleApiCall_def
        loadPasswords_def truthy_def Let_def DashboardPage_addPassword_def
        DashboardPage_editPassword_def AddPasswordModal_handleSubmit_def
        EditPasswordModal_handleSubmit_def modalErrors_def sample_modal_def adding_dashboard_def
        editing_dashboard_def sample_dashboard_def sample_entry_def storing_def updating_def)

text \<open>
  C5, amended. While the session's \<open>masterKey\<close> is null (or empty), \<open>loadPasswords\<close>,
  \<open>handleSearch\<close>, \<open>handleViewPassword\<close> and \<open>handleEditPassword\<close> return at once: they
  make no backend call and change no state. The other record operations have no such
  guard: \<open>handleDeletePassword\<close>, once the user confirms, makes the one call
  \<open>delete_password\<close> with the record id, and the add and the edit modal, submitted with
  the required fields filled, make the one call \<open>add_password\<close> or \<open>update_password\<close>,
  with the session's null (or empty) key as \<open>master_key\<close>.
\<close>

theorem record_operations_without_key:
  assumes "\<not> truthy (masterKey (state w))"
    and "showAddForm da"
    and "showEditForm de" and "editingPassword de = Some entry"
    and "modalErrors t (PasswordModal.formData m) = []"
  shows "loadPasswords b1 d w = (d, w)
         \<and> handleSearch b2 d w = (d, w)
         \<and> handleViewPassword b3 i d w = (d, w)
         \<and> handleEditPassword b3 e d w = (d, w)
         \<and> calls (snd (handleDeletePassword True b4 b1 i d w)) =
             calls w @ [invoke_delete_password \<lparr>DeletePasswordRequest.id = i\<rparr>]
         \<and> calls (snd (snd (DashboardPage_addPassword t b5 b1 m da w))) =
             calls w @
             [invoke_add_password
                \<lparr>AddPasswordRequest.software = PasswordFormData.software (PasswordModal.formData m),
                 account = PasswordFormData.account (PasswordModal.formData m),
                 password = PasswordFormData.password (PasswordModal.formData m),
                 notes = PasswordFormData.notes (PasswordModal.formData m),
                 master_key = masterKey (state w)\<rparr>]
         \<and> calls (snd (snd (DashboardPage_editPassword t b6 b1 m de w))) =
             calls w @
             [invoke_update_password
                \<lparr>UpdatePasswordRequest.id = PasswordEntry.id entry,
                 software = PasswordFormData.software (PasswordModal.formData m),
                 account = PasswordFormData.account (PasswordModal.formData m),
                 password = PasswordFormData.password (PasswordModal.formData m),
                 notes = PasswordFormData.notes (PasswordModal.formData m),
                 master_key = masterKey (state w)\<rparr>]"
proof -
  note 1 = loadPasswords_no_key [OF assms(1), of b1 d]
  note 2 = handleSearch_no_key [OF assms(1), of b2 d]
  note 3 = handleViewPassword_no_key [OF assms(1), of b3 i d]
  note 4 = handleEditPassword_no_key [OF assms(1), of b3 e d]
  note 5 = handleDeletePassword_no_key [OF assms(1), of b4 b1 i d]
  note 6 = DashboardPage_addPassword_no_key [OF assms(1) assms(2) assms(5), of b5 b1]
  note 7 = DashboardPage_editPassword_no_key [OF assms(1) assms(3) assms(4) assms(5), of b6 b1]
  show ?thesis using 1 2 3 4 5 6 7 by simp
qed

theorem record_operations_without_key_witness:
  "\<not> truthy (masterKey (state locked_world))
   \<and> showAddForm adding_dashboard
   \<and> showEditForm editing_dashboard \<and> editingPassword editing_dashboard = Some sample_entry
   \<and> modalErrors plain (PasswordModal.formData sample_modal) = []
   \<and> loadPasswords listing sample_dashboard locked_world = (sample_dashboard, locked_world)
   \<and> handleSearch (\<lambda>q k. Inl ThrownOther) sample_dashboard locked_world
       = (sample_dashboard, locked_world)
   \<and> handleViewPassword (\<lambda>r. Inl ThrownOther) 7 sample_dashboard locked_world
       = (sample_dashboard, locked_world)
   \<and> handleEditPassword (\<lambda>r. Inl ThrownOther) sample_entry sample_dashboard locked_world
       = (sample_dashboard, locked_world)
   \<and> calls (snd (handleDeletePassword True deleting listing 7 sample_dashboard locked_world)) =
       calls locked_world @ [invoke_delete_password \<lparr>DeletePasswordRequest.id = 7\<rparr>]
   \<and> calls (snd (snd (DashboardPage_addPassword plain storing listing sample_modal
                        adding_dashboard locked_world))) =
       calls locked_world @
       [invoke_add_password
          \<lparr>AddPasswordRequest.software = ''example'', account = ''user'', password = ''s3cr3t'',
           notes = [], master_key = None\<rparr>]"
proof -
  have h1: "\<not> truthy (masterKey (state locked_world))"
    by (simp add: locked_world_def truthy_def)
  have h2: "showAddForm adding_dashboard" by (simp add: adding_dashboard_def)
  have h3: "showEditForm editing_dashboard" by (simp add: editing_dashboard_def)
  have h4: "editingPassword editing_dashboard = Some sample_entry"
    by (simp add: editing_dashboard_def)
  have h5: "modalErrors plain (PasswordModal.formData sample_modal) = []"
    by (simp add: modalErrors_def sample_modal_def)
  have k: "masterKey (state locked_world) = None" by (simp add: locked_world_def)
  show ?thesis
    using h1 h2 h3 h4 h5 k
      record_operations_without_key [where w = locked_world and da = adding_dashboard
        and de = editing_dashboard and entry = sample_entry and t = plain and m = sample_modal
        and ?b1.0 = listing and d = sample_dashboard and ?b2.0 = "\<lambda>q k. Inl ThrownOther"
        and ?b3.0 = "\<lambda>r. Inl ThrownOther" and i = 7 and e = sample_entry and ?b4.0 = deleting
        and ?b5.0 = storing and ?b6.0 = updating, OF h1 h2 h3 h4 h5]
    by (simp add: sample_modal_def)
qed

section \<open>Three security questions\<close>

lemma newErrors_empty:
  "newErrors t fd = [] \<Longrightarrow>
     SetupFormData.question1 fd \<noteq> [] \<and> SetupFormData.answer1 fd \<noteq> []
     \<and> SetupFormData.question2 fd \<noteq> [] \<and> SetupFormData.answer2 fd \<noteq> []
     \<and> SetupFormData.question3 fd \<noteq> [] \<and> SetupFormData.answer3 fd \<noteq> []"
  by (auto simp: newErrors_def split: if_splits)

lemma SetupPage_handleSubmit_invalid:
  "newErrors t (SetupPage.formData page) \<noteq> [] \<Longrightarrow>
     snd (SetupPage_handleSubmit t backend isAppSetup page w) = w"
  by (simp add: SetupPage_handleSubmit_def validateForm_def Let_def)

lemma calls_checkSetup: "calls (checkSetup f w) = calls w @ [invoke_is_app_setup]"
  by (cases "handleApiCall f") (simp_all add: checkSetup_def Let_def)

lemma SetupPage_handleSubmit_valid:
  "newErrors t (SetupPage.formData page) = [] \<Longrightarrow>
     \<exists>rest. calls (snd (SetupPage_handleSubmit t backend isAppSetup page w)) =
       calls w @
       invoke_setup_app
         \<lparr>SetupRequest.master_password = masterPassword (SetupPage.formData page),
          question1 = SetupFormData.question1 (SetupPage.formData page),
          answer1 = SetupFormData.answer1 (SetupPage.formData page),
          question2 = SetupFormData.question2 (SetupPage.formData page),
          answer2 = SetupFormData.answer2 (SetupPage.formData page),
          question3 = SetupFormData.question3 (SetupPage.formData page),
          answer3 = SetupFormData.answer3 (SetupPage.formData page)\<rparr> # rest"
  by (simp add: SetupPage_handleSubmit_def validateForm_def Let_def calls_checkSetup
        split: sum.split)

text \<open>
  C6. There are exactly three security questions. A setup request has three question
  and answer pairs, and the setup page calls the backend only when all three questions
  and all three answers are non-empty; the request it then sends carries those three
  pairs. The recovery request has three answers, and the verification accepts only when
  every one of the three derives its stored hash: a partial set never passes.
\<close>

theorem three_questions_required:
  "(calls (snd (SetupPage_handleSubmit t backend isAppSetup page w)) \<noteq> calls w \<longrightarrow>
      SetupFormData.question1 (SetupPage.formData page) \<noteq> []
      \<and> SetupFormData.answer1 (SetupPage.formData page) \<noteq> []
      \<and> SetupFormData.question2 (SetupPage.formData page) \<noteq> []
      \<and> SetupFormData.answer2 (SetupPage.formData page) \<noteq> []
      \<and> SetupFormData.question3 (SetupPage.formData page) \<noteq> []
      \<and> SetupFormData.answer3 (SetupPage.formData page) \<noteq> []
      \<and> (\<exists>rest. calls (snd (SetupPage_handleSubmit t backend isAppSetup page w)) =
            calls w @
            invoke_setup_app
              \<lparr>SetupRequest.master_password = masterPassword (SetupPage.formData page),
               question1 = SetupFormData.question1 (SetupPage.formData page),
               answer1 = SetupFormData.answer1 (SetupPage.formData page),
               question2 = SetupFormData.question2 (SetupPage.formData page),
               answer2 = SetupFormData.answer2 (SetupPage.formData page),
               question3 = SetupFormData.question3 (SetupPage.formData page),
               answer3 = SetupFormData.answer3 (SetupPage.formData page)\<rparr> # rest))
   \<and> (verify_answers derive q1 q2 q3 request \<longrightarrow>
        derive (RecoveryRequest.answer1 request) (answer_salt q1)
          (SecurityQuestionRecord.kdf_params q1) = answer_hash q1
        \<and> derive (RecoveryRequest.answer2 request) (answer_salt q2)
            (SecurityQuestionRecord.kdf_params q2) = answer_hash q2
        \<and> derive (RecoveryRequest.answer3 request) (answer_salt q3)
            (SecurityQuestionRecord.kdf_params q3) = answer_hash q3)"
proof (intro conjI impI)
  assume c: "calls (snd (SetupPage_handleSubmit t backend isAppSetup page w)) \<noteq> calls w"
  have e: "newErrors t (SetupPage.formData page) = []"
  proof (rule ccontr)
    assume "newErrors t (SetupPage.formData page) \<noteq> []"
    then have "snd (SetupPage_handleSubmit t backend isAppSetup page w) = w"
      by (rule SetupPage_handleSubmit_invalid)
    with c show False by simp
  qed
  note n = newErrors_empty [OF e]
  show "SetupFormData.question1 (SetupPage.formData page) \<noteq> []" using n by simp
  show "SetupFormData.answer1 (SetupPage.formData page) \<noteq> []" using n by simp
  show "SetupFormData.question2 (SetupPage.formData page) \<noteq> []" using n by simp
  show "SetupFormData.answer2 (SetupPage.formData page) \<noteq> []" using n by simp
  show "SetupFormData.question3 (SetupPage.formData page) \<noteq> []" using n by simp
  show "SetupFormData.answer3 (SetupPage.formData page) \<noteq> []" using n by simp
  show "\<exists>rest. calls (snd (SetupPage_handleSubmit t backend isAppSetup page w)) =
            calls w @
            invoke_setup_app
              \<lparr>SetupRequest.master_password = masterPassword (SetupPage.formData page),
               question1 = SetupFormData.question1 (SetupPage.formData page),
               answer1 = SetupFormData.answer1 (SetupPage.formData page),
               question2 = SetupFormData.question2 (SetupPage.formData page),
               answer2 = SetupFormData.answer2 (SetupPage.formData page),
               question3 = SetupFormData.question3 (SetupPage.formData page),
               answer3 = SetupFormData.answer3 (SetupPage.formData page)\<rparr> # rest"
    by (rule SetupPage_handleSubmit_valid [OF e])
next
  assume "verify_answers derive q1 q2 q3 request"
  then show "derive (RecoveryRequest.answer1 request) (answer_salt q1)
          (SecurityQuestionRecord.kdf_params q1) = answer_hash q1"
    and "derive (RecoveryRequest.answer2 request) (answer_salt q2)
            (SecurityQuestionRecord.kdf_params q2) = answer_hash q2"
    and "derive (RecoveryRequest.answer3 request) (answer_salt q3)
            (SecurityQuestionRecord.kdf_params q3) = answer_hash q3"
    by (simp_all add: verify_answers_def)
qed

theorem three_questions_required_witness:
  "calls (snd (SetupPage_handleSubmit plain accepting (\<lambda>_. Inr True) (setup_page complete_form)
           fresh_world)) \<noteq> calls fresh_world
   \<and> SetupFormData.question1 complete_form \<noteq> [] \<and> SetupFormData.answer1 complete_form \<noteq> []
   \<and> SetupFormData.question2 complete_form \<noteq> [] \<and> SetupFormData.answer2 complete_form \<noteq> []
   \<and> SetupFormData.question3 complete_form \<noteq> [] \<and> SetupFormData.answer3 complete_form \<noteq> []
   \<and> verify_answers sample_kdf (sample_question ''First pet?'' [3] ''Rex'')
        (sample_question ''Birth city?'' [4] ''Oslo'') (sample_question ''First school?'' [5] ''North'')
        \<lparr>RecoveryRequest.answer1 = ''Rex'', answer2 = ''Oslo'', answer3 = ''North''\<rparr>
   \<and> sample_kdf ''North'' [5] () = answer_hash (sample_question ''First school?'' [5] ''North'')"
proof -
  have c: "calls (snd (SetupPage_handleSubmit plain accepting (\<lambda>_. Inr True)
             (setup_page complete_form) fresh_world)) \<noteq> calls fresh_world"
    by (simp add: SetupPage_handleSubmit_def validateForm_def newErrors_def setup_page_def
          complete_form_def fresh_world_def accepting_def handleApiCall_def truthy_def
          calls_checkSetup Let_def)
  have v: "verify_answers sample_kdf (sample_question ''First pet?'' [3] ''Rex'')
        (sample_question ''Birth city?'' [4] ''Oslo'') (sample_question ''First school?'' [5] ''North'')
        \<lparr>RecoveryRequest.answer1 = ''Rex'', answer2 = ''Oslo'', answer3 = ''North''\<rparr>"
    by (simp add: verify_answers_def sample_question_def)
  show ?thesis
    using c v
      three_questions_required [where t = plain and backend = accepting
        and isAppSetup = "\<lambda>_. Inr True" and page = "setup_page complete_form"
        and w = fresh_world and derive = sample_kdf
        and ?q1.0 = "sample_question ''First pet?'' [3] ''Rex''"
        and ?q2.0 = "sample_question ''Birth city?'' [4] ''Oslo''"
        and ?q3.0 = "sample_question ''First school?'' [5] ''North''"
        and request = "\<lparr>RecoveryRequest.answer1 = ''Rex'', answer2 = ''Oslo'', answer3 = ''North''\<rparr>"]
    by (simp add: setup_page_def sample_question_def)
qed

section \<open>The master key at the boundary\<close>

lemma login_granted:
  assumes "backend \<lparr>LoginRequest.master_password = pw\<rparr> = Inr r"
    and "AuthResponse.success r" and "AuthResponse.master_key r = Some k" and "k \<noteq> []"
  shows "login backend pw w =
           (r, w\<lparr>world.isLoading := False,
                 state := (state w)\<lparr>error := None, isAuthenticated := True, masterKey := Some k\<rparr>,
                 calls := calls w @ [invoke_login \<lparr>LoginRequest.master_password = pw\<rparr>],
                 sessionStorage := (sessionStorage w)(''masterKey'' \<mapsto> k, ''isAuthenticated'' \<mapsto> ''true'')\<rparr>)"
  using assms
  by (simp add: login_def handleApiCall_def truthy_def Let_def setAuthState_def setMasterKey_def
        String_of_bool_def)

lemma sessionStorage_checkSetup: "sessionStorage (checkSetup f w) = sessionStorage w"
  by (cases "handleApiCall f") (simp_all add: checkSetup_def Let_def)

lemma state_checkSetup:
  "isAuthenticated (state (checkSetup f w)) = isAuthenticated (state w)
   \<and> masterKey (state (checkSetup f w)) = masterKey (state w)"
  by (cases "handleApiCall f") (simp_all add: checkSetup_def Let_def)

lemma SetupPage_granted:
  assumes "newErrors t (SetupPage.formData page) = []"
    and "backend
           \<lparr>SetupRequest.master_password = masterPassword (SetupPage.formData page),
            question1 = SetupFormData.question1 (SetupPage.formData page),
            answer1 = SetupFormData.answer1 (SetupPage.formData page),
            question2 = SetupFormData.question2 (SetupPage.formData page),
            answer2 = SetupFormData.answer2 (SetupPage.formData page),
            question3 = SetupFormData.question3 (SetupPage.formData page),
            answer3 = SetupFormData.answer3 (SetupPage.formData page)\<rparr> = Inr r"
    and "AuthResponse.success r" and "AuthResponse.master_key r = Some k" and "k \<noteq> []"
  shows "sessionStorage (snd (SetupPage_handleSubmit t backend f page w)) =
           (sessionStorage w)(''masterKey'' \<mapsto> k, ''isAuthenticated'' \<mapsto> ''true'')"
  using assms
  by (simp add: SetupPage_handleSubmit_def validateForm_def Let_def handleApiCall_def
        truthy_def sessionStorage_checkSetup setAuthState_def setMasterKey_def String_of_bool_def)

lemma calls_loadPasswords:
  "masterKey (state w) = Some k \<Longrightarrow> k \<noteq> [] \<Longrightarrow>
     calls (snd (loadPasswords b d w)) =
       calls w @ [invoke_get_all_passwords
                    \<lparr>GetPasswordsRequest.master_key = k,
                     search_query = (if searchQuery d = [] then None else Some (searchQuery d))\<rparr>]"
  by (simp add: loadPasswords_def truthy_def Let_def split: sum.split)

lemma calls_handleSearch:
  "masterKey (state w) = Some k \<Longrightarrow> k \<noteq> [] \<Longrightarrow>
     calls (snd (handleSearch b d w)) = calls w @ [invoke_search_passwords (searchQuery d) k]"
  by (simp add: handleSearch_def truthy_def Let_def split: sum.split)

lemma calls_handleViewPassword:
  "masterKey (state w) = Some k \<Longrightarrow> k \<noteq> [] \<Longrightarrow>
     calls (snd (handleViewPassword b i d w)) =
       calls w @ [invoke_get_password \<lparr>DecryptPasswordRequest.id = i, master_key = k\<rparr>]"
  by (simp add: handleViewPassword_def truthy_def Let_def split: sum.split)

lemma calls_handleEditPassword:
  "masterKey (state w) = Some k \<Longrightarrow> k \<noteq> [] \<Longrightarrow>
     calls (snd (handleEditPassword b e d w)) =
       calls w @ [invoke_get_password
                    \<lparr>DecryptPasswordRequest.id = PasswordEntry.id e, master_key = k\<rparr>]"
  by (simp add: handleEditPassword_def truthy_def Let_def split: sum.split)

lemma calls_DashboardPage_addPassword:
  assumes "showAddForm d" and "modalErrors t (PasswordModal.formData m) = []"
  shows "\<exists>rest. calls (snd (snd (DashboardPage_addPassword t b reload m d w))) =
           calls w @
           invoke_add_password
             \<lparr>AddPasswordRequest.software = PasswordFormData.software (PasswordModal.formData m),
              account = PasswordFormData.account (PasswordModal.formData m),
              password = PasswordFormData.password (PasswordModal.formData m),
              notes = PasswordFormData.notes (PasswordModal.formData m),
              master_key = masterKey (state w)\<rparr> # rest"
proof (cases "snd (snd (AddPasswordModal_handleSubmit t b (masterKey (state w)) m w))")
  case True
  from calls_loadPasswords_prefix
  obtain rest where
    "calls (snd (loadPasswords reload (d\<lparr>showAddForm := False\<rparr>)
                   (fst (snd (AddPasswordModal_handleSubmit t b (masterKey (state w)) m w))))) =
       calls (fst (snd (AddPasswordModal_handleSubmit t b (masterKey (state w)) m w))) @ rest"
    by blast
  with True show ?thesis
    by (simp add: world_DashboardPage_addPassword [OF assms(1)] world_AddPasswordModal [OF assms(2)])
next
  case False
  then show ?thesis
    by (simp add: world_DashboardPage_addPassword [OF assms(1)] world_AddPasswordModal [OF assms(2)])
qed

lemma calls_DashboardPage_editPassword:
  assumes "showEditForm d" and "editingPassword d = Some entry"
    and "modalErrors t (PasswordModal.formData m) = []"
  shows "\<exists>rest. calls (snd (snd (DashboardPage_editPassword t b reload m d w))) =
           calls w @
           invoke_update_password
             \<lparr>UpdatePasswordRequest.id = PasswordEntry.id entry,
              software = PasswordFormData.software (PasswordModal.formData m),
              account = PasswordFormData.account (PasswordModal.formData m),
              password = PasswordFormData.password (PasswordModal.formData m),
              notes = PasswordFormData.notes (PasswordModal.formData m),
              master_key = masterKey (state w)\<rparr> # rest"
proof (cases "snd (snd (EditPasswordModal_handleSubmit t b entry (masterKey (state w)) m w))")
  case True
  from calls_loadPasswords_prefix
  obtain rest where
    "calls (snd (loadPasswords reload (d\<lparr>showEditForm := False, editingPassword := None\<rparr>)
                   (fst (snd (EditPasswordModal_handleSubmit t b entry (masterKey (state w)) m w))))) =
       calls (fst (snd (EditPasswordModal_handleSubmit t b entry (masterKey (state w)) m w))) @ rest"
    by blast
  with True show ?thesis
    by (simp add: world_DashboardPage_editPassword [OF assms(1) assms(2)]
          world_EditPasswordModal [OF assms(3)])
next
  case False
  then show ?thesis
    by (simp add: world_DashboardPage_editPassword [OF assms(1) assms(2)]
          world_EditPasswordModal [OF assms(3)])
qed

lemma calls_handleDeletePassword:
  "\<exists>rest. calls (snd (handleDeletePassword True b reload i d w)) =
     calls w @ invoke_delete_password \<lparr>DeletePasswordRequest.id = i\<rparr> # rest"
  by (cases "truthy (masterKey (state w))")
     (auto simp: handleDeletePassword_def loadPasswords_def Let_def split: sum.split)

lemma world_handleExport:
  "exportPassphrase m \<noteq> [] \<Longrightarrow> confirmPassphrase m = exportPassphrase m \<Longrightarrow>
     fst (snd (handleExport t b m w)) =
       w\<lparr>calls := calls w @ [invoke_create_backup (exportPassphrase m) None]\<rparr>"
  by (simp add: handleExport_def Let_def split: sum.split)

lemma calls_DashboardPage_export:
  assumes "showExportModal d" and "exportPassphrase m \<noteq> []"
    and "confirmPassphrase m = exportPassphrase m"
  shows "calls (snd (snd (DashboardPage_export t b m d w))) =
           calls w @ [invoke_create_backup (exportPassphrase m) None]"
  using assms(1) world_handleExport [OF assms(2) assms(3), of t b w]
  by (cases "handleExport t b m w")
     (auto simp: DashboardPage_export_def split: prod.split bool.split)

text \<open>
  C1, as the claim states it, fails: the response of a successful login carries the
  master key in \<open>master_key\<close>, and the request that then lists the records sends it
  back in \<open>master_key\<close>.
\<close>

theorem master_key_crosses_boundary:
  "AuthResponse.master_key (fst (login granting ''Tr0ub4dor!'' locked_world)) = Some ''a2V5''
   \<and> masterKey (state unlocked_world) = Some ''a2V5''
   \<and> calls (snd (loadPasswords listing sample_dashboard unlocked_world)) =
       [invoke_login \<lparr>LoginRequest.master_password = ''Tr0ub4dor!''\<rparr>,
        invoke_get_all_passwords \<lparr>GetPasswordsRequest.master_key = ''a2V5'', search_query = None\<rparr>]"
  by (simp add: unlocked_world_def login_def granting_def locked_world_def handleApiCall_def
        truthy_def loadPasswords_def listing_def sample_dashboard_def Let_def)

text \<open>
  C1, amended. The master key does cross the boundary: the values exchanged for login,
  setup, list, search, get, add and update carry it; the requests for delete, export
  and import do not.
  \<^item> Login: a response that is successful and has a non-empty \<open>master_key\<close> is handed to
    the caller as it is, and its key becomes the session's \<open>masterKey\<close>.
  \<^item> Setup: from a response that is successful and has a non-empty \<open>master_key\<close>, the
    setup page takes the key and stores it as the item \<open>masterKey\<close> of the session
    storage.
  \<^item> With a non-empty key in the session's \<open>masterKey\<close>: the list request
    (\<open>get_all_passwords\<close>) and the get request (\<open>get_password\<close>, from
    \<open>handleViewPassword\<close> and from \<open>handleEditPassword\<close>) carry it in \<open>master_key\<close>, the
    search request as \<open>masterKey\<close>; the first call of the add modal and of the edit
    modal, as the dashboard renders them and with the required fields filled, is
    \<open>add_password\<close> or \<open>update_password\<close> with that key in \<open>master_key\<close>.
  \<^item> The first call of \<open>handleDeletePassword\<close>, once the user confirms, is
    \<open>delete_password\<close> with the record id alone; the export modal's call is
    \<open>create_backup\<close> with the passphrase alone; \<open>importData\<close> calls \<open>import_data\<close> with
    its request of passphrase and file path. None of the three carries a key.
\<close>

theorem master_key_in_requests:
  assumes "backend \<lparr>LoginRequest.master_password = pw\<rparr> = Inr r"
    and "AuthResponse.success r" and "AuthResponse.master_key r = Some k" and "k \<noteq> []"
    and "newErrors t (SetupPage.formData page) = []"
    and "setup_backend
           \<lparr>SetupRequest.master_password = masterPassword (SetupPage.formData page),
            question1 = SetupFormData.question1 (SetupPage.formData page),
            answer1 = SetupFormData.answer1 (SetupPage.formData page),
            question2 = SetupFormData.question2 (SetupPage.formData page),
            answer2 = SetupFormData.answer2 (SetupPage.formData page),
            question3 = SetupFormData.question3 (SetupPage.formData page),
            answer3 = SetupFormData.answer3 (SetupPage.formData page)\<rparr> = Inr r"
    and "masterKey (state w) = Some k"
    and "showAddForm da"
    and "showEditForm de" and "editingPassword de = Some entry"
    and "modalErrors t (PasswordModal.formData m) = []"
    and "showExportModal dx"
    and "exportPassphrase x \<noteq> []" and "confirmPassphrase x = exportPassphrase x"
  shows "fst (login backend pw w0) = r
         \<and> masterKey (state (snd (login backend pw w0))) = Some k
         \<and> getMasterKey (sessionStorage (snd (SetupPage_handleSubmit t setup_backend f page v)))
             = Some k
         \<and> calls (snd (loadPasswords b1 d w)) =
             calls w @ [invoke_get_all_passwords
                          \<lparr>GetPasswordsRequest.master_key = k,
                           search_query = (if searchQuery d = [] then None else Some (searchQuery d))\<rparr>]
         \<and> calls (snd (handleSearch b2 d w)) = calls w @ [invoke_search_passwords (searchQuery d) k]
         \<and> calls (snd (handleViewPassword b3 i d w)) =
             calls w @ [invoke_get_password \<lparr>DecryptPasswordRequest.id = i, master_key = k\<rparr>]
         \<and> calls (snd (handleEditPassword b3 e d w)) =
             calls w @ [invoke_get_password
                          \<lparr>DecryptPasswordRequest.id = PasswordEntry.id e, master_key = k\<rparr>]
         \<and> (\<exists>rest. calls (snd (snd (DashboardPage_addPassword t b4 b1 m da w))) =
               calls w @
               invoke_add_password
                 \<lparr>AddPasswordRequest.software = PasswordFormData.software (PasswordModal.formData m),
                  account = PasswordFormData.account (PasswordModal.formData m),
                  password = PasswordFormData.password (PasswordModal.formData m),
                  notes = PasswordFormData.notes (PasswordModal.formData m),
                  master_key = Some k\<rparr> # rest)
         \<and> (\<exists>rest. calls (snd (snd (DashboardPage_editPassword t b5 b1 m de w))) =
               calls w @
               invoke_update_password
                 \<lparr>UpdatePasswordRequest.id = PasswordEntry.id entry,
                  software = PasswordFormData.software (PasswordModal.formData m),
                  account = PasswordFormData.account (PasswordModal.formData m),
                  password = PasswordFormData.password (PasswordModal.formData m),
                  notes = PasswordFormData.notes (PasswordModal.formData m),
                  master_key = Some k\<rparr> # rest)
         \<and> (\<exists>rest. calls (snd (handleDeletePassword True b6 b1 i d w)) =
               calls w @ invoke_delete_password \<lparr>DeletePasswordRequest.id = i\<rparr> # rest)
         \<and> request_key (invoke_delete_password \<lparr>DeletePasswordRequest.id = i\<rparr>) = None
         \<and> calls (snd (snd (DashboardPage_export t b7 x dx w))) =
             calls w @ [invoke_create_backup (exportPassphrase x) None]
         \<and> request_key (invoke_create_backup (exportPassphrase x) None) = None
         \<and> calls (snd (importData b8 ir w)) = calls w @ [invoke_import_data ir]
         \<and> request_key (invoke_import_data ir) = None"
proof -
  note l = login_granted [where backend = backend and pw = pw and r = r and k = k and w = w0,
      OF assms(1-4)]
  have 1: "fst (login backend pw w0) = r" using l by simp
  have 2: "masterKey (state (snd (login backend pw w0))) = Some k" using l by simp
  have 3: "getMasterKey (sessionStorage (snd (SetupPage_handleSubmit t setup_backend f page v)))
             = Some k"
    by (simp add: getMasterKey_def
          SetupPage_granted [where backend = setup_backend and f = f and w = v,
            OF assms(5) assms(6) assms(2) assms(3) assms(4)])
  note 4 = calls_loadPasswords [OF assms(7) assms(4), of b1 d]
  note 5 = calls_handleSearch [OF assms(7) assms(4), of b2 d]
  note 6 = calls_handleViewPassword [OF assms(7) assms(4), of b3 i d]
  note 7 = calls_handleEditPassword [OF assms(7) assms(4), of b3 e d]
  note 8 = calls_DashboardPage_addPassword [OF assms(8) assms(11), of b4 b1 w]
  note 9 = calls_DashboardPage_editPassword [OF assms(9) assms(10) assms(11), of b5 b1 w]
  note 10 = calls_handleDeletePassword [of b6 b1 i d w]
  note 11 = calls_DashboardPage_export [OF assms(12) assms(13) assms(14), of t b7 w]
  have 12: "calls (snd (importData b8 ir w)) = calls w @ [invoke_import_data ir]"
    by (simp add: importData_def)
  show ?thesis using 1 2 3 4 5 6 7 8 9 10 11 12 assms(7) by simp
qed

theorem master_key_in_requests_witness:
  "granting \<lparr>LoginRequest.master_password = ''Tr0ub4dor!''\<rparr> =
     Inr \<lparr>AuthResponse.success = True, message = ''Unlocked'', master_key = Some ''a2V5''\<rparr>
   \<and> newErrors plain (SetupPage.formData (setup_page complete_form)) = []
   \<and> masterKey (state unlocked_world) = Some ''a2V5''
   \<and> showAddForm adding_dashboard
   \<and> showEditForm editing_dashboard \<and> editingPassword editing_dashboard = Some sample_entry
   \<and> modalErrors plain (PasswordModal.formData sample_modal) = []
   \<and> showExportModal exporting_dashboard
   \<and> exportPassphrase sample_export \<noteq> []
   \<and> confirmPassphrase sample_export = exportPassphrase sample_export
   \<and> fst (login granting ''Tr0ub4dor!'' locked_world) =
       \<lparr>AuthResponse.success = True, message = ''Unlocked'', master_key = Some ''a2V5''\<rparr>
   \<and> getMasterKey (sessionStorage (snd (SetupPage_handleSubmit plain
        (\<lambda>request. Inr \<lparr>AuthResponse.success = True, message = ''Unlocked'',
                         master_key = Some ''a2V5''\<rparr>)
        (\<lambda>_. Inr True) (setup_page complete_form) fresh_world))) = Some ''a2V5''
   \<and> calls (snd (handleEditPassword (\<lambda>r. Inl ThrownOther) sample_entry sample_dashboard
                   unlocked_world)) =
       calls unlocked_world @
       [invoke_get_password \<lparr>DecryptPasswordRequest.id = 7, master_key = ''a2V5''\<rparr>]
   \<and> calls (snd (snd (DashboardPage_export plain (\<lambda>p path. Inl ThrownOther) sample_export
                        exporting_dashboard unlocked_world))) =
       calls unlocked_world @ [invoke_create_backup ''horse'' None]"
proof -
  have h1: "granting \<lparr>LoginRequest.master_password = ''Tr0ub4dor!''\<rparr> =
     Inr \<lparr>AuthResponse.success = True, message = ''Unlocked'', master_key = Some ''a2V5''\<rparr>"
    by (simp add: granting_def)
  have h2: "AuthResponse.success
     \<lparr>AuthResponse.success = True, message = ''Unlocked'', master_key = Some ''a2V5''\<rparr>"
    by simp
  have h3: "AuthResponse.master_key
     \<lparr>AuthResponse.success = True, message = ''Unlocked'', master_key = Some ''a2V5''\<rparr>
     = Some ''a2V5''"
    by simp
  have h4: "''a2V5'' \<noteq> []" by simp
  have h5: "newErrors plain (SetupPage.formData (setup_page complete_form)) = []"
    by (simp add: newErrors_def setup_page_def complete_form_def)
  have h7: "masterKey (state unlocked_world) = Some ''a2V5''"
    by (simp add: unlocked_world_def login_def granting_def handleApiCall_def truthy_def Let_def)
  have h8: "showAddForm adding_dashboard" by (simp add: adding_dashboard_def)
  have h9: "showEditForm editing_dashboard" by (simp add: editing_dashboard_def)
  have h10: "editingPassword editing_dashboard = Some sample_entry"
    by (simp add: editing_dashboard_def)
  have h11: "modalErrors plain (PasswordModal.formData sample_modal) = []"
    by (simp add: modalErrors_def sample_modal_def)
  have h12: "showExportModal exporting_dashboard" by (simp add: exporting_dashboard_def)
  have h13: "exportPassphrase sample_export \<noteq> []" by (simp add: sample_export_def)
  have h14: "confirmPassphrase sample_export = exportPassphrase sample_export"
    by (simp add: sample_export_def)
  have e: "exportPassphrase sample_export = ''horse''" by (simp add: sample_export_def)
  have i: "PasswordEntry.id sample_entry = 7" by (simp add: sample_entry_def)
  show ?thesis
    using h1 h5 h7 h8 h9 h10 h11 h12 h13 h14 e i
      master_key_in_requests [where backend = granting and pw = "''Tr0ub4dor!''"
        and t = plain and page = "setup_page complete_form"
        and setup_backend = "\<lambda>request. Inr \<lparr>AuthResponse.success = True, message = ''Unlocked'',
                         master_key = Some ''a2V5''\<rparr>"
        and f = "\<lambda>_. Inr True" and v = fresh_world
        and ?w0.0 = locked_world and w = unlocked_world and m = sample_modal
        and da = adding_dashboard and de = editing_dashboard and entry = sample_entry
        and dx = exporting_dashboard and x = sample_export
        and ?b1.0 = listing and ?b2.0 = "\<lambda>q k. Inl ThrownOther"
        and ?b3.0 = "\<lambda>r. Inl ThrownOther" and i = 7 and e = sample_entry
        and d = sample_dashboard
        and ?b4.0 = storing and ?b5.0 = updating and ?b6.0 = deleting
        and ?b7.0 = "\<lambda>p path. Inl ThrownOther"
        and ?b8.0 = "\<lambda>r. Inl ThrownOther" and ir = sample_import,
        OF h1 h2 h3 h4 h5 _ h7 h8 h9 h10 h11 h12 h13 h14]
    by simp
qed

section \<open>Where the master key is stored\<close>

lemma localStorage_initializeAuth: "localStorage (initializeAuth f w) = localStorage w"
  by (cases "handleApiCall f") (simp_all add: initializeAuth_def Let_def)

lemma localStorage_login: "localStorage (snd (login b p w)) = localStorage w"
  by (cases "handleApiCall (\<lambda>_. b \<lparr>LoginRequest.master_password = p\<rparr>)")
     (simp_all add: login_def Let_def)

lemma localStorage_checkSetup: "localStorage (checkSetup f w) = localStorage w"
  by (cases "handleApiCall f") (simp_all add: checkSetup_def Let_def)

lemma localStorage_step: "localStorage (step e w) = localStorage w"
  by (cases e)
     (simp_all add: localStorage_initializeAuth localStorage_login localStorage_checkSetup
        logout_def)

lemma localStorage_run: "localStorage (run es w) = localStorage w"
  by (induction es arbitrary: w) (simp_all add: localStorage_step)

lemma localStorage_SetupPage:
  "localStorage (snd (SetupPage_handleSubmit t b f page w)) = localStorage w"
  by (cases "newErrors t (SetupPage.formData page) = []")
     (simp_all add: SetupPage_handleSubmit_def validateForm_def Let_def localStorage_checkSetup
        split: sum.split)

lemma initializeAuth_restores:
  "f () = Inr b \<Longrightarrow> masterKey (state (initializeAuth f w)) = getMasterKey (sessionStorage w)"
  by (simp add: initializeAuth_def handleApiCall_def Let_def)

lemma storage_loadPasswords:
  "localStorage (snd (loadPasswords b d w)) = localStorage w
   \<and> sessionStorage (snd (loadPasswords b d w)) = sessionStorage w"
  by (simp add: loadPasswords_def Let_def split: sum.split)

lemma storage_handleSearch:
  "localStorage (snd (handleSearch b d w)) = localStorage w
   \<and> sessionStorage (snd (handleSearch b d w)) = sessionStorage w"
  by (simp add: handleSearch_def Let_def split: sum.split)

lemma storage_handleViewPassword:
  "localStorage (snd (handleViewPassword b i d w)) = localStorage w
   \<and> sessionStorage (snd (handleViewPassword b i d w)) = sessionStorage w"
  by (simp add: handleViewPassword_def Let_def split: sum.split)

lemma storage_handleEditPassword:
  "localStorage (snd (handleEditPassword b entry d w)) = localStorage w
   \<and> sessionStorage (snd (handleEditPassword b entry d w)) = sessionStorage w"
  by (simp add: handleEditPassword_def Let_def split: sum.split)

lemma storage_handleDeletePassword:
  "localStorage (snd (handleDeletePassword c b reload i d w)) = localStorage w
   \<and> sessionStorage (snd (handleDeletePassword c b reload i d w)) = sessionStorage w"
  by (simp add: handleDeletePassword_def Let_def storage_loadPasswords split: sum.split)

lemma storage_AddPasswordModal:
  "localStorage (fst (snd (AddPasswordModal_handleSubmit t b k m w))) = localStorage w
   \<and> sessionStorage (fst (snd (AddPasswordModal_handleSubmit t b k m w))) = sessionStorage w"
  by (simp add: AddPasswordModal_handleSubmit_def Let_def split: sum.split)

lemma storage_EditPasswordModal:
  "localStorage (fst (snd (EditPasswordModal_handleSubmit t b entry k m w))) = localStorage w
   \<and> sessionStorage (fst (snd (EditPasswordModal_handleSubmit t b entry k m w))) = sessionStorage w"
  by (simp add: EditPasswordModal_handleSubmit_def Let_def split: sum.split)

lemma storage_handleExport:
  "localStorage (fst (snd (handleExport t b m w))) = localStorage w
   \<and> sessionStorage (fst (snd (handleExport t b m w))) = sessionStorage w"
  by (simp add: handleExport_def Let_def split: sum.split)

lemma storage_DashboardPage_addPassword:
  "localStorage (snd (snd (DashboardPage_addPassword t b reload m d w))) = localStorage w
   \<and> sessionStorage (snd (snd (DashboardPage_addPassword t b reload m d w))) = sessionStorage w"
  using storage_AddPasswordModal [of t b "masterKey (state w)" m w]
  by (cases "AddPasswordModal_handleSubmit t b (masterKey (state w)) m w")
     (auto simp: DashboardPage_addPassword_def storage_loadPasswords split: prod.split bool.split)

lemma storage_DashboardPage_editPassword:
  "localStorage (snd (snd (DashboardPage_editPassword t b reload m d w))) = localStorage w
   \<and> sessionStorage (snd (snd (DashboardPage_editPassword t b reload m d w))) = sessionStorage w"
proof (cases "editingPassword d")
  case None
  then show ?thesis by (simp add: DashboardPage_editPassword_def split: bool.split)
next
  case (Some entry)
  with storage_EditPasswordModal [of t b entry "masterKey (state w)" m w] show ?thesis
    by (cases "EditPasswordModal_handleSubmit t b entry (masterKey (state w)) m w")
       (auto simp: DashboardPage_editPassword_def storage_loadPasswords
          split: prod.split bool.split)
qed

lemma storage_DashboardPage_export:
  "localStorage (snd (snd (DashboardPage_export t b m d w))) = localStorage w
   \<and> sessionStorage (snd (snd (DashboardPage_export t b m d w))) = sessionStorage w"
  using storage_handleExport [of t b m w]
  by (cases "handleExport t b m w")
     (auto simp: DashboardPage_export_def split: prod.split bool.split)

text \<open>
  C2, as the claim states it, fails: a successful login writes the master key to the
  session storage, as the item \<open>masterKey\<close>.
\<close>

theorem master_key_written_to_session_storage:
  "sessionStorage locked_world ''masterKey'' = None
   \<and> sessionStorage (snd (login granting ''Tr0ub4dor!'' locked_world)) ''masterKey'' = Some ''a2V5''"
  by (simp add: login_def granting_def locked_world_def handleApiCall_def truthy_def Let_def
        setAuthState_def setMasterKey_def)

text \<open>
  C2, amended. The master key is written to the session storage; the local storage is
  written by none of the operations below.
  \<^item> A successful login (a successful response with a non-empty \<open>master_key\<close>) writes the
    key to the item \<open>masterKey\<close> of \<open>sessionStorage\<close> and \<open>true\<close> to its item
    \<open>isAuthenticated\<close>, and puts the key into the provider's state, with
    \<open>isAuthenticated\<close> true.
  \<^item> A successful setup writes the same two items of \<open>sessionStorage\<close>.
  \<^item> The effect on mount, when \<open>is_app_setup\<close> answers, reads the item \<open>masterKey\<close> back
    into the provider's state.
  \<^item> \<open>logout\<close> removes both items and sets the state's \<open>masterKey\<close> to null.
  \<^item> \<open>localStorage\<close> is left as it was by every run of the provider's transitions, by
    the setup page's submission, by the dashboard's handlers (\<open>loadPasswords\<close>,
    \<open>handleSearch\<close>, \<open>handleViewPassword\<close>, \<open>handleEditPassword\<close>,
    \<open>handleDeletePassword\<close>), by its add, edit and export modals and by \<open>importData\<close>;
    these dashboard operations and \<open>importData\<close> leave \<open>sessionStorage\<close> as it was too.
\<close>

theorem master_key_storage:
  assumes "backend \<lparr>LoginRequest.master_password = pw\<rparr> = Inr r"
    and "AuthResponse.success r" and "AuthResponse.master_key r = Some k" and "k \<noteq> []"
    and "newErrors t (SetupPage.formData page) = []"
    and "setup_backend
           \<lparr>SetupRequest.master_password = masterPassword (SetupPage.formData page),
            question1 = SetupFormData.question1 (SetupPage.formData page),
            answer1 = SetupFormData.answer1 (SetupPage.formData page),
            question2 = SetupFormData.question2 (SetupPage.formData page),
            answer2 = SetupFormData.answer2 (SetupPage.formData page),
            question3 = SetupFormData.question3 (SetupPage.formData page),
            answer3 = SetupFormData.answer3 (SetupPage.formData page)\<rparr> = Inr r"
    and "isAppSetup () = Inr b"
  shows "sessionStorage (snd (login backend pw w)) ''masterKey'' = Some k
         \<and> sessionStorage (snd (login backend pw w)) ''isAuthenticated'' = Some ''true''
         \<and> getMasterKey (sessionStorage (snd (login backend pw w))) = Some k
         \<and> getAuthState (sessionStorage (snd (login backend pw w)))
         \<and> masterKey (state (snd (login backend pw w))) = Some k
         \<and> isAuthenticated (state (snd (login backend pw w)))
         \<and> sessionStorage (snd (SetupPage_handleSubmit t setup_backend f page v)) ''masterKey''
             = Some k
         \<and> sessionStorage (snd (SetupPage_handleSubmit t setup_backend f page v)) ''isAuthenticated''
             = Some ''true''
         \<and> getMasterKey (sessionStorage (snd (SetupPage_handleSubmit t setup_backend f page v)))
             = Some k
         \<and> getAuthState (sessionStorage (snd (SetupPage_handleSubmit t setup_backend f page v)))
         \<and> masterKey (state (initializeAuth isAppSetup u)) = getMasterKey (sessionStorage u)
         \<and> sessionStorage (logout (snd (login backend pw w))) ''masterKey'' = None
         \<and> sessionStorage (logout (snd (login backend pw w))) ''isAuthenticated'' = None
         \<and> masterKey (state (logout (snd (login backend pw w)))) = None
         \<and> localStorage (run es w) = localStorage w
         \<and> localStorage (snd (SetupPage_handleSubmit t setup_backend f page v)) = localStorage v
         \<and> localStorage (snd (loadPasswords b1 d w)) = localStorage w
         \<and> sessionStorage (snd (loadPasswords b1 d w)) = sessionStorage w
         \<and> localStorage (snd (handleSearch b2 d w)) = localStorage w
         \<and> sessionStorage (snd (handleSearch b2 d w)) = sessionStorage w
         \<and> localStorage (snd (handleViewPassword b3 i d w)) = localStorage w
         \<and> sessionStorage (snd (handleViewPassword b3 i d w)) = sessionStorage w
         \<and> localStorage (snd (handleEditPassword b3 entry d w)) = localStorage w
         \<and> sessionStorage (snd (handleEditPassword b3 entry d w)) = sessionStorage w
         \<and> localStorage (snd (handleDeletePassword c b4 b1 i d w)) = localStorage w
         \<and> sessionStorage (snd (handleDeletePassword c b4 b1 i d w)) = sessionStorage w
         \<and> localStorage (snd (snd (DashboardPage_addPassword t b5 b1 m d w))) = localStorage w
         \<and> sessionStorage (snd (snd (DashboardPage_addPassword t b5 b1 m d w))) = sessionStorage w
         \<and> localStorage (snd (snd (DashboardPage_editPassword t b6 b1 m d w))) = localStorage w
         \<and> sessionStorage (snd (snd (DashboardPage_editPassword t b6 b1 m d w))) = sessionStorage w
         \<and> localStorage (snd (snd (DashboardPage_export t b7 x d w))) = localStorage w
         \<and> sessionStorage (snd (snd (DashboardPage_export t b7 x d w))) = sessionStorage w
         \<and> localStorage (snd (importData b8 ir w)) = localStorage w
         \<and> sessionStorage (snd (importData b8 ir w)) = sessionStorage w"
proof -
  note l = login_granted [where backend = backend and pw = pw and r = r and k = k and w = w,
      OF assms(1-4)]
  note s = SetupPage_granted [where backend = setup_backend and f = f and w = v,
      OF assms(5) assms(6) assms(2) assms(3) assms(4)]
  note i = initializeAuth_restores [where f = isAppSetup and b = b and w = u, OF assms(7)]
  have login_part:
    "sessionStorage (snd (login backend pw w)) ''masterKey'' = Some k
     \<and> sessionStorage (snd (login backend pw w)) ''isAuthenticated'' = Some ''true''
     \<and> getMasterKey (sessionStorage (snd (login backend pw w))) = Some k
     \<and> getAuthState (sessionStorage (snd (login backend pw w)))
     \<and> masterKey (state (snd (login backend pw w))) = Some k
     \<and> isAuthenticated (state (snd (login backend pw w)))"
    using l by (simp add: getMasterKey_def getAuthState_def)
  have setup_part:
    "sessionStorage (snd (SetupPage_handleSubmit t setup_backend f page v)) ''masterKey'' = Some k
     \<and> sessionStorage (snd (SetupPage_handleSubmit t setup_backend f page v)) ''isAuthenticated''
         = Some ''true''
     \<and> getMasterKey (sessionStorage (snd (SetupPage_handleSubmit t setup_backend f page v)))
         = Some k
     \<and> getAuthState (sessionStorage (snd (SetupPage_handleSubmit t setup_backend f page v)))"
    using s by (simp add: getMasterKey_def getAuthState_def)
  have logout_part:
    "sessionStorage (logout (snd (login backend pw w))) ''masterKey'' = None
     \<and> sessionStorage (logout (snd (login backend pw w))) ''isAuthenticated'' = None
     \<and> masterKey (state (logout (snd (login backend pw w)))) = None"
    by (simp add: logout_def clearAll_def clearAuthState_def clearMasterKey_def)
  have import_part:
    "localStorage (snd (importData b8 ir w)) = localStorage w
     \<and> sessionStorage (snd (importData b8 ir w)) = sessionStorage w"
    by (simp add: importData_def)
  show ?thesis
    using login_part setup_part i logout_part import_part
    by (simp add: localStorage_run localStorage_SetupPage storage_loadPasswords
          storage_handleSearch storage_handleViewPassword storage_handleEditPassword
          storage_handleDeletePassword storage_DashboardPage_addPassword
          storage_DashboardPage_editPassword storage_DashboardPage_export)
qed

theorem master_key_storage_witness:
  "granting \<lparr>LoginRequest.master_password = ''Tr0ub4dor!''\<rparr> =
     Inr \<lparr>AuthResponse.success = True, message = ''Unlocked'', master_key = Some ''a2V5''\<rparr>
   \<and> newErrors plain (SetupPage.formData (setup_page complete_form)) = []
   \<and> getMasterKey (sessionStorage (snd (login granting ''Tr0ub4dor!'' locked_world))) = Some ''a2V5''
   \<and> getMasterKey (sessionStorage (snd (SetupPage_handleSubmit plain
        (\<lambda>request. Inr \<lparr>AuthResponse.success = True, message = ''Unlocked'',
                         master_key = Some ''a2V5''\<rparr>)
        (\<lambda>_. Inr True) (setup_page complete_form) fresh_world))) = Some ''a2V5''
   \<and> getAuthState (sessionStorage (snd (SetupPage_handleSubmit plain
        (\<lambda>request. Inr \<lparr>AuthResponse.success = True, message = ''Unlocked'',
                         master_key = Some ''a2V5''\<rparr>)
        (\<lambda>_. Inr True) (setup_page complete_form) fresh_world)))
   \<and> masterKey (state (initializeAuth (\<lambda>_. Inr True) unlocked_world))
       = getMasterKey (sessionStorage unlocked_world)
   \<and> getMasterKey (sessionStorage (logout (snd (login granting ''Tr0ub4dor!'' locked_world)))) = None"
proof -
  have h1: "granting \<lparr>LoginRequest.master_password = ''Tr0ub4dor!''\<rparr> =
     Inr \<lparr>AuthResponse.success = True, message = ''Unlocked'', master_key = Some ''a2V5''\<rparr>"
    by (simp add: granting_def)
  have h2: "AuthResponse.success
     \<lparr>AuthResponse.success = True, message = ''Unlocked'', master_key = Some ''a2V5''\<rparr>"
    by simp
  have h3: "AuthResponse.master_key
     \<lparr>AuthResponse.success = True, message = ''Unlocked'', master_key = Some ''a2V5''\<rparr>
     = Some ''a2V5''"
    by simp
  have h4: "''a2V5'' \<noteq> []" by simp
  have h5: "newErrors plain (SetupPage.formData (setup_page complete_form)) = []"
    by (simp add: newErrors_def setup_page_def complete_form_def)
  have h7: "(\<lambda>_. Inr True :: js_thrown + bool) () = Inr True" by simp
  show ?thesis
    using h1 h5
      master_key_storage [where backend = granting and pw = "''Tr0ub4dor!''" and w = locked_world
        and t = plain and page = "setup_page complete_form"
        and setup_backend = "\<lambda>request. Inr \<lparr>AuthResponse.success = True, message = ''Unlocked'',
                         master_key = Some ''a2V5''\<rparr>"
        and f = "\<lambda>_. Inr True" and v = fresh_world
        and isAppSetup = "\<lambda>_. Inr True" and b = True and u = unlocked_world
        and es = "[Logout]" and d = sample_dashboard
        and ?b1.0 = listing and ?b2.0 = "\<lambda>q k. Inl ThrownOther"
        and ?b3.0 = "\<lambda>r. Inl ThrownOther" and i = 7 and entry = sample_entry and c = True
        and ?b4.0 = deleting and ?b5.0 = storing and ?b6.0 = updating
        and ?b7.0 = "\<lambda>p path. Inl ThrownOther" and m = sample_modal and x = sample_export
        and ?b8.0 = "\<lambda>r. Inl ThrownOther" and ir = sample_import,
        OF h1 h2 h3 h4 h5 _ h7]
    by (simp add: getMasterKey_def)
qed

end
